theory Spec2Isabelle
  imports Main "HOL-Library.Char_ord" "HOL-Library.List_Lexorder" "HOL-Library.Multiset"
begin

section \<open>Python values and strings\<close>

text \<open>
  The generator of \<^verbatim>\<open>main.py\<close> and \<^verbatim>\<open>update.py\<close> works on the tree that
  \<^verbatim>\<open>yaml.safe_load\<close> returns. The tree is modelled by the datatype \<open>yaml\<close>: null,
  booleans, integers, strings, sequences and mappings, and \<open>YOther\<close> for every other
  scalar that the parser yields (a floating point number, a date, a timestamp). The
  generator reads three things of such a scalar, which are the arguments of \<open>YOther\<close>:
  its truth value, the text of \<^verbatim>\<open>str\<close> and the text of \<^verbatim>\<open>repr\<close>; the date
  \<^verbatim>\<open>2024-01-01\<close> is \<open>YOther True ''2024-01-01'' ''datetime.date(2024, 1, 1)''\<close>.
  A mapping is an association list in document order, as Python dictionaries keep
  insertion order; a lookup takes the first entry of a key, and a dictionary has every
  key once.

  A Python string is modelled by the bytes of its UTF-8 encoding, as a \<open>string\<close>.
  Splitting at an ASCII character, joining, testing a prefix and comparing are the same
  on the bytes as on the characters. Changing the case, stripping whitespace and
  \<^verbatim>\<open>repr\<close> depend on the Unicode character database: they are defined here on ASCII
  strings, and taken from a table \<open>unicode\<close> of Python's own functions on every other
  string.
\<close>

datatype yaml =
    YNull
  | YBool bool
  | YInt int
  | YStr string
  | YList "yaml list"
  | YDict "(yaml \<times> yaml) list"
  | YOther bool string string

type_synonym py_dict = "(yaml \<times> yaml) list"

record unicode =
  unicode_capitalize :: "string \<Rightarrow> string"
  unicode_lower :: "string \<Rightarrow> string"
  unicode_strip :: "string \<Rightarrow> string"
  unicode_repr :: "string \<Rightarrow> string"

text \<open>A table for texts within ASCII, where it is never consulted.\<close>

definition no_unicode :: unicode where
  "no_unicode =
     \<lparr>unicode_capitalize = (\<lambda>s. s), unicode_lower = (\<lambda>s. s), unicode_strip = (\<lambda>s. s),
      unicode_repr = (\<lambda>s. s)\<rparr>"

text \<open>A string of ASCII characters: no byte has its highest bit set.\<close>

definition is_ascii :: "string \<Rightarrow> bool" where
  "is_ascii s = list_all (\<lambda>c. \<not> digit7 c) s"

text \<open>\<^verbatim>\<open>sep.join(xs)\<close>\<close>

fun join :: "string \<Rightarrow> string list \<Rightarrow> string" where
  "join sep [] = []"
| "join sep [x] = x"
| "join sep (x # y # ys) = x @ sep @ join sep (y # ys)"

text \<open>\<^verbatim>\<open>s.split(sep)\<close> for a separator of one character: never the empty list.\<close>

fun split_on :: "char \<Rightarrow> string \<Rightarrow> string list" where
  "split_on sep [] = [[]]"
| "split_on sep (c # cs) =
     (if c = sep then [] # split_on sep cs
      else (case split_on sep cs of
              w # ws \<Rightarrow> (c # w) # ws
            | [] \<Rightarrow> [[c]]))"

definition ascii_lowercase :: string where
  "ascii_lowercase = ''abcdefghijklmnopqrstuvwxyz''"

definition ascii_uppercase :: string where
  "ascii_uppercase = ''ABCDEFGHIJKLMNOPQRSTUVWXYZ''"

text \<open>The case of an ASCII character.\<close>

definition to_lower :: "char \<Rightarrow> char" where
  "to_lower c = (case map_of (zip ascii_uppercase ascii_lowercase) c of Some l \<Rightarrow> l | None \<Rightarrow> c)"

definition to_upper :: "char \<Rightarrow> char" where
  "to_upper c = (case map_of (zip ascii_lowercase ascii_uppercase) c of Some u \<Rightarrow> u | None \<Rightarrow> c)"

text \<open>\<^verbatim>\<open>s.lower()\<close>\<close>

definition lower :: "unicode \<Rightarrow> string \<Rightarrow> string" where
  "lower U s = (if is_ascii s then map to_lower s else unicode_lower U s)"

text \<open>\<^verbatim>\<open>s.capitalize()\<close>: the first character in upper case, all the others in lower case.\<close>

fun ascii_capitalize :: "string \<Rightarrow> string" where
  "ascii_capitalize [] = []"
| "ascii_capitalize (c # cs) = to_upper c # map to_lower cs"

definition capitalize :: "unicode \<Rightarrow> string \<Rightarrow> string" where
  "capitalize U s = (if is_ascii s then ascii_capitalize s else unicode_capitalize U s)"

text \<open>
  \<^verbatim>\<open>s.strip()\<close>. The whitespace of ASCII has the codes 9 to 13 and 28 to 32.
\<close>

definition is_space :: "char \<Rightarrow> bool" where
  "is_space c =
     ((9 :: nat) \<le> of_char c \<and> of_char c \<le> (13 :: nat)
      \<or> (28 :: nat) \<le> of_char c \<and> of_char c \<le> (32 :: nat))"

definition strip :: "unicode \<Rightarrow> string \<Rightarrow> string" where
  "strip U s =
     (if is_ascii s then rev (dropWhile is_space (rev (dropWhile is_space s)))
      else unicode_strip U s)"

text \<open>\<^verbatim>\<open>s.startswith(p)\<close>\<close>

fun startswith :: "string \<Rightarrow> string \<Rightarrow> bool" where
  "startswith s [] = True"
| "startswith [] (p # ps) = False"
| "startswith (c # cs) (p # ps) = (c = p \<and> startswith cs ps)"

text \<open>\<^verbatim>\<open>str(n)\<close> for an integer: decimal digits, with a minus sign below zero.\<close>

function str_nat :: "nat \<Rightarrow> string" where
  "str_nat n =
     (if n < 10 then [''0123456789'' ! n]
      else str_nat (n div 10) @ [''0123456789'' ! (n mod 10)])"
  by pat_completeness auto
termination
  by (relation "measure (\<lambda>n. n)") auto

definition str_int :: "int \<Rightarrow> string" where
  "str_int i = (if i < 0 then CHR ''-'' # str_nat (nat (- i)) else str_nat (nat i))"

text \<open>
  \<^verbatim>\<open>repr(s)\<close> for a string: single quotes, unless the string has a single quote and no
  double quote; the quote and the backslash are escaped, tab, newline and carriage return
  are written with their letters, every other control character of ASCII as
  \<^verbatim>\<open>\xNN\<close>.
\<close>

definition repr_char :: "char \<Rightarrow> char \<Rightarrow> string" where
  "repr_char q c =
     (if c = q \<or> c = CHR 0x5C then [CHR 0x5C, c]
      else if c = CHR 0x09 then [CHR 0x5C, CHR ''t'']
      else if c = CHR 0x0A then [CHR 0x5C, CHR ''n'']
      else if c = CHR 0x0D then [CHR 0x5C, CHR ''r'']
      else if of_char c < (32 :: nat) \<or> of_char c = (127 :: nat)
        then [CHR 0x5C, CHR ''x'',
              ''0123456789abcdef'' ! (of_char c div 16), ''0123456789abcdef'' ! (of_char c mod 16)]
      else [c])"

definition ascii_repr :: "string \<Rightarrow> string" where
  "ascii_repr s =
     (let q = (if CHR 0x27 \<in> set s \<and> CHR 0x22 \<notin> set s then CHR 0x22 else CHR 0x27)
      in q # concat (map (repr_char q) s) @ [q])"

definition repr_str :: "unicode \<Rightarrow> string \<Rightarrow> string" where
  "repr_str U s = (if is_ascii s then ascii_repr s else unicode_repr U s)"

text \<open>
  \<^verbatim>\<open>repr(v)\<close> and \<^verbatim>\<open>str(v)\<close>. They differ on strings and on the scalars of
  \<open>YOther\<close>; an f-string field \<^verbatim>\<open>{v}\<close> is \<^verbatim>\<open>str(v)\<close>. The members of a list or of a
  mapping are written with \<^verbatim>\<open>repr\<close> by both.
\<close>

fun py_repr :: "unicode \<Rightarrow> yaml \<Rightarrow> string" where
  "py_repr U YNull = ''None''"
| "py_repr U (YBool b) = (if b then ''True'' else ''False'')"
| "py_repr U (YInt i) = str_int i"
| "py_repr U (YStr s) = repr_str U s"
| "py_repr U (YList xs) = ''['' @ join '', '' (map (py_repr U) xs) @ '']''"
| "py_repr U (YDict kvs) =
     ''{'' @ join '', '' (map (\<lambda>kv. py_repr U (fst kv) @ '': '' @ py_repr U (snd kv)) kvs) @ ''}''"
| "py_repr U (YOther t s r) = r"

definition py_str :: "unicode \<Rightarrow> yaml \<Rightarrow> string" where
  "py_str U v = (case v of YStr s \<Rightarrow> s | YOther t s r \<Rightarrow> s | _ \<Rightarrow> py_repr U v)"

text \<open>The truth value of a Python object, as \<^verbatim>\<open>if v:\<close> reads it.\<close>

fun truthy :: "yaml \<Rightarrow> bool" where
  "truthy YNull = False"
| "truthy (YBool b) = b"
| "truthy (YInt i) = (i \<noteq> 0)"
| "truthy (YStr s) = (s \<noteq> [])"
| "truthy (YList xs) = (xs \<noteq> [])"
| "truthy (YDict kvs) = (kvs \<noteq> [])"
| "truthy (YOther t s r) = t"

text \<open>\<^verbatim>\<open>d.get(k)\<close> and \<^verbatim>\<open>k in d\<close> for a string key.\<close>

definition dict_get :: "py_dict \<Rightarrow> string \<Rightarrow> yaml option" where
  "dict_get d k = map_of d (YStr k)"


section \<open>Exceptions\<close>

text \<open>
  A raised exception is its class and its message. The generator raises \<^verbatim>\<open>ValueError\<close>
  itself; \<^verbatim>\<open>AttributeError\<close> and \<^verbatim>\<open>TypeError\<close> come from the Python runtime when a
  string method is called on a value that is not a string, or an unhashable value is
  looked up in a dictionary. The fixed text of each message of the generator is
  represented by a constructor of \<open>message\<close>, whose arguments are the values the f-string
  interpolates, in the order of the text:
  \<^item> \<open>File_not_found path\<close>: \<^verbatim>\<open>main.py\<close> line 59;
  \<^item> \<open>Parse_failed_file path diagnostic\<close>: \<^verbatim>\<open>main.py\<close> line 61;
  \<^item> \<open>Parse_failed_content diagnostic\<close>: \<^verbatim>\<open>update.py\<close> line 62;
  \<^item> \<open>Invalid_schema\<close>: line 65, no interpolation;
  \<^item> \<open>Bad_table_def table\<close>: \<^verbatim>\<open>main.py\<close> line 79;
  \<^item> \<open>Bad_columns table\<close>: \<^verbatim>\<open>main.py\<close> line 98;
  \<^item> \<open>Bad_column_def table column\<close>: \<^verbatim>\<open>main.py\<close> line 102;
  \<^item> \<open>Unsupported_type type column\<close>: \<^verbatim>\<open>main.py\<close> line 106;
  \<^item> \<open>Runtime_message\<close>: the text of an exception of the Python runtime.
\<close>

datatype exc_class = ValueError | AttributeError | TypeError

datatype message =
    File_not_found string
  | Parse_failed_file string string
  | Parse_failed_content string
  | Invalid_schema
  | Bad_table_def string
  | Bad_columns string
  | Bad_column_def string string
  | Unsupported_type string string
  | Runtime_message

type_synonym py_exception = "exc_class \<times> message"

text \<open>The values a message interpolates.\<close>

fun interpolated :: "message \<Rightarrow> string list" where
  "interpolated (File_not_found p) = [p]"
| "interpolated (Parse_failed_file p d) = [p, d]"
| "interpolated (Parse_failed_content d) = [d]"
| "interpolated Invalid_schema = []"
| "interpolated (Bad_table_def t) = [t]"
| "interpolated (Bad_columns t) = [t]"
| "interpolated (Bad_column_def t c) = [t, c]"
| "interpolated (Unsupported_type y c) = [y, c]"
| "interpolated Runtime_message = []"

section \<open>The generator\<close>

definition SQLA_TYPE_MAP :: "(string \<times> string) list" where
  "SQLA_TYPE_MAP =
     [(''Integer'', ''Integer''), (''String'', ''String''), (''DateTime'', ''DateTime''),
      (''Boolean'', ''Boolean''), (''Float'', ''Float''), (''Text'', ''Text'')]"

definition snake_to_pascal :: "unicode \<Rightarrow> string \<Rightarrow> string" where
  "snake_to_pascal U snake_str = concat (map (capitalize U) (split_on CHR ''_'' snake_str))"

definition normalize_yaml_value :: "unicode \<Rightarrow> yaml \<Rightarrow> string" where
  "normalize_yaml_value U v = (case v of YStr s \<Rightarrow> repr_str U s | _ \<Rightarrow> py_str U v)"

text \<open>
  The accumulators of one call of \<^verbatim>\<open>generate_models_code\<close>. The Python set
  \<^verbatim>\<open>used_sqlalchemy_types\<close> is the list of its members, each once.
\<close>

record gen_state =
  used_sqlalchemy_types :: "string list"
  needs_sqlalchemy_func_import :: bool
  model_code_lines :: "string list"

definition set_add :: "string list \<Rightarrow> string \<Rightarrow> string list" where
  "set_add xs x = (if x \<in> set xs then xs else xs @ [x])"

text \<open>\<^verbatim>\<open>col_def.get(k)\<close> read as a condition: a missing key gives \<^verbatim>\<open>None\<close>, which is false.\<close>

definition get_truthy :: "py_dict \<Rightarrow> string \<Rightarrow> bool" where
  "get_truthy d k = (case dict_get d k of None \<Rightarrow> False | Some v \<Rightarrow> truthy v)"

text \<open>\<^verbatim>\<open>isinstance(default_val, str) and default_val.startswith('func.')\<close>\<close>

definition is_func_default :: "yaml \<Rightarrow> bool" where
  "is_func_default v = (case v of YStr s \<Rightarrow> startswith s ''func.'' | _ \<Rightarrow> False)"

text \<open>The list \<^verbatim>\<open>column_args\<close> of one column (\<^verbatim>\<open>main.py\<close> lines 114 to 138).\<close>

definition column_args :: "unicode \<Rightarrow> py_dict \<Rightarrow> string list" where
  "column_args U col_def =
     (let args = [];
          args = (if get_truthy col_def ''primary_key'' then args @ [''primary_key=True''] else args);
          args = (if get_truthy col_def ''autoincrement'' then args @ [''autoincrement=True''] else args);
          args = (if dict_get col_def ''nullable'' = Some (YBool False)
                  then args @ [''nullable=False''] else args);
          args = (if get_truthy col_def ''unique'' then args @ [''unique=True''] else args);
          args = (case dict_get col_def ''default'' of
                    None \<Rightarrow> args
                  | Some default_val \<Rightarrow>
                      if is_func_default default_val
                      then args @ [''server_default='' @ py_str U default_val]
                      else args @ [''default='' @ normalize_yaml_value U default_val]);
          args = (if get_truthy col_def ''index'' then args @ [''index=True''] else args);
          args = (case dict_get col_def ''comment'' of
                    None \<Rightarrow> args
                  | Some c \<Rightarrow> args @ [''comment='' @ normalize_yaml_value U c])
      in args)"

text \<open>Whether the column sets \<^verbatim>\<open>needs_sqlalchemy_func_import\<close> (line 129).\<close>

definition sets_func_import :: "py_dict \<Rightarrow> bool" where
  "sets_func_import col_def =
     (case dict_get col_def ''default'' of None \<Rightarrow> False | Some default_val \<Rightarrow> is_func_default default_val)"

text \<open>\<^verbatim>\<open>column_type_str\<close> (lines 109 to 112), from the token of the type table.\<close>

definition column_type_str :: "unicode \<Rightarrow> yaml \<Rightarrow> py_dict \<Rightarrow> string \<Rightarrow> string" where
  "column_type_str U yaml_type col_def token =
     (case dict_get col_def ''length'' of
        Some len \<Rightarrow>
          if yaml_type = YStr ''String'' then ''String(length='' @ py_str U len @ '')'' else token
      | None \<Rightarrow> token)"

text \<open>The declaration line (lines 140 to 144).\<close>

definition column_line :: "unicode \<Rightarrow> yaml \<Rightarrow> string \<Rightarrow> string list \<Rightarrow> string" where
  "column_line U col_name type_str args =
     (let args_str = join '', '' args
      in if args_str \<noteq> []
         then ''    '' @ py_str U col_name @ '' = Column('' @ type_str @ '', '' @ args_str @ '')''
         else ''    '' @ py_str U col_name @ '' = Column('' @ type_str @ '')'')"

text \<open>
  \<^verbatim>\<open>yaml_type not in SQLA_TYPE_MAP\<close> and the lookup: a list or a mapping is unhashable
  and the membership test raises \<^verbatim>\<open>TypeError\<close>; only a string is equal to a key of the table.
\<close>

definition hashable :: "yaml \<Rightarrow> bool" where
  "hashable v = (case v of YList _ \<Rightarrow> False | YDict _ \<Rightarrow> False | _ \<Rightarrow> True)"

definition type_token :: "yaml \<Rightarrow> string option" where
  "type_token v = (case v of YStr t \<Rightarrow> map_of SQLA_TYPE_MAP t | _ \<Rightarrow> None)"

text \<open>The body of the loop over the columns of a table (lines 100 to 144).\<close>

definition render_column :: "unicode \<Rightarrow> yaml \<Rightarrow> gen_state \<Rightarrow> yaml \<times> yaml \<Rightarrow> py_exception + gen_state" where
  "render_column U table_key st col =
     (let col_name = fst col in
      case snd col of
        YDict col_def \<Rightarrow>
          (case dict_get col_def ''type'' of
             None \<Rightarrow> Inl (ValueError, Bad_column_def (py_str U table_key) (py_str U col_name))
           | Some yaml_type \<Rightarrow>
               if \<not> hashable yaml_type then Inl (TypeError, Runtime_message)
               else
                 (case type_token yaml_type of
                    None \<Rightarrow> Inl (ValueError, Unsupported_type (py_str U yaml_type) (py_str U col_name))
                  | Some token \<Rightarrow>
                      Inr (st\<lparr>used_sqlalchemy_types := set_add (used_sqlalchemy_types st) token,
                              needs_sqlalchemy_func_import :=
                                (needs_sqlalchemy_func_import st \<or> sets_func_import col_def),
                              model_code_lines := model_code_lines st @
                                [column_line U col_name (column_type_str U yaml_type col_def token)
                                   (column_args U col_def)]\<rparr>)))
      | _ \<Rightarrow> Inl (ValueError, Bad_column_def (py_str U table_key) (py_str U col_name)))"

fun render_columns :: "unicode \<Rightarrow> yaml \<Rightarrow> gen_state \<Rightarrow> (yaml \<times> yaml) list \<Rightarrow> py_exception + gen_state" where
  "render_columns U table_key st [] = Inr st"
| "render_columns U table_key st (col # cols) =
     (case render_column U table_key st col of
        Inl e \<Rightarrow> Inl e
      | Inr st' \<Rightarrow> render_columns U table_key st' cols)"

text \<open>
  The documentation block (lines 87 to 91): nothing for a false description;
  \<^verbatim>\<open>strip\<close> on a true value that is not a string raises \<^verbatim>\<open>AttributeError\<close>.
\<close>

definition docstring_lines :: "unicode \<Rightarrow> yaml \<Rightarrow> py_exception + string list" where
  "docstring_lines U table_description =
     (if \<not> truthy table_description then Inr []
      else case table_description of
        YStr s \<Rightarrow>
          Inr ([''    '' @ [CHR 0x22, CHR 0x22, CHR 0x22]]
               @ map (\<lambda>line. ''    '' @ strip U line) (split_on CHR 0x0A (strip U s))
               @ [''    '' @ [CHR 0x22, CHR 0x22, CHR 0x22]])
      | _ \<Rightarrow> Inl (AttributeError, Runtime_message))"

text \<open>
  The names of a table (lines 81 and 82). Both defaults are computed before
  \<^verbatim>\<open>get\<close> is called, so a table key that is not a string raises \<^verbatim>\<open>AttributeError\<close>
  in \<open>render_table\<close> below, whether or not the names are given.
\<close>

definition class_name_of :: "unicode \<Rightarrow> string \<Rightarrow> py_dict \<Rightarrow> yaml" where
  "class_name_of U key table_def =
     (case dict_get table_def ''class_name'' of Some v \<Rightarrow> v | None \<Rightarrow> YStr (snake_to_pascal U key))"

definition db_table_name_of :: "unicode \<Rightarrow> string \<Rightarrow> py_dict \<Rightarrow> yaml" where
  "db_table_name_of U key table_def =
     (case dict_get table_def ''table_name'' of Some v \<Rightarrow> v | None \<Rightarrow> YStr (lower U key))"

definition table_description_of :: "py_dict \<Rightarrow> yaml" where
  "table_description_of table_def =
     (case dict_get table_def ''description'' of Some v \<Rightarrow> v | None \<Rightarrow> YStr [])"

text \<open>The lines of a table before its columns (lines 86 to 94).\<close>

definition table_head :: "unicode \<Rightarrow> string \<Rightarrow> py_dict \<Rightarrow> string list \<Rightarrow> string list" where
  "table_head U key table_def doc =
     [''class '' @ py_str U (class_name_of U key table_def) @ ''(Base):''] @ doc @
     [''    __tablename__ = '' @ [CHR 0x27] @ py_str U (db_table_name_of U key table_def) @ [CHR 0x27],
      []]"

text \<open>The body of the loop over the tables (lines 77 to 145).\<close>

definition render_table :: "unicode \<Rightarrow> gen_state \<Rightarrow> yaml \<times> yaml \<Rightarrow> py_exception + gen_state" where
  "render_table U st tbl =
     (let table_key_in_yaml = fst tbl in
      case snd tbl of
        YDict table_def \<Rightarrow>
          (case table_key_in_yaml of
             YStr key \<Rightarrow>
               (case docstring_lines U (table_description_of table_def) of
                  Inl e \<Rightarrow> Inl e
                | Inr doc \<Rightarrow>
                    (let st1 = st\<lparr>model_code_lines :=
                                 model_code_lines st @ table_head U key table_def doc\<rparr>
                     in case dict_get table_def ''columns'' of
                          Some (YDict columns_def) \<Rightarrow>
                            (case render_columns U table_key_in_yaml st1 columns_def of
                               Inl e \<Rightarrow> Inl e
                             | Inr st2 \<Rightarrow>
                                 Inr (st2\<lparr>model_code_lines := model_code_lines st2 @ [[]]\<rparr>))
                        | _ \<Rightarrow> Inl (ValueError, Bad_columns (py_str U table_key_in_yaml))))
           | _ \<Rightarrow> Inl (AttributeError, Runtime_message))
      | _ \<Rightarrow> Inl (ValueError, Bad_table_def (py_str U table_key_in_yaml)))"

fun render_tables :: "unicode \<Rightarrow> gen_state \<Rightarrow> (yaml \<times> yaml) list \<Rightarrow> py_exception + gen_state" where
  "render_tables U st [] = Inr st"
| "render_tables U st (tbl # tbls) =
     (case render_table U st tbl of
        Inl e \<Rightarrow> Inl e
      | Inr st' \<Rightarrow> render_tables U st' tbls)"

text \<open>
  The import lines (lines 148 to 161). Python does not fix the order in which a set is
  iterated: \<open>set_order\<close> is that order, a function from the members of a set to the
  list an iteration yields. It is used for \<^verbatim>\<open>for t in used_sqlalchemy_types\<close> and for
  \<^verbatim>\<open>list(set(final_imports))\<close>.
\<close>

definition general_sqlalchemy_imports :: "(string list \<Rightarrow> string list) \<Rightarrow> string list \<Rightarrow> string list" where
  "general_sqlalchemy_imports set_order used =
     (if used \<noteq> []
      then fold (\<lambda>t general. if t \<notin> set general then general @ [t] else general)
             (set_order used) [''Column'']
      else [''Column''])"

definition final_imports :: "(string list \<Rightarrow> string list) \<Rightarrow> gen_state \<Rightarrow> string list" where
  "final_imports set_order st =
     (let imports =
            [''from sqlalchemy import '' @
               join '', '' (sort (general_sqlalchemy_imports set_order (used_sqlalchemy_types st)))];
          imports = (if needs_sqlalchemy_func_import st
                     then imports @ [''from sqlalchemy.sql import func''] else imports);
          imports = imports @ [''from sqlalchemy.ext.declarative import declarative_base'']
      in sort (set_order (remdups imports)))"

text \<open>\<^verbatim>\<open>full_code\<close> (lines 163 to 166).\<close>

definition full_code :: "string list \<Rightarrow> string list \<Rightarrow> string" where
  "full_code imports code_lines =
     join [CHR 0x0A] imports @ [CHR 0x0A, CHR 0x0A] @
     ''Base = declarative_base()'' @ [CHR 0x0A, CHR 0x0A] @
     join [CHR 0x0A] code_lines"

definition initial_state :: gen_state where
  "initial_state =
     \<lparr>used_sqlalchemy_types = [], needs_sqlalchemy_func_import = False, model_code_lines = []\<rparr>"

text \<open>
  The generator from the loaded tree on (\<^verbatim>\<open>main.py\<close> lines 64 to 168, \<^verbatim>\<open>update.py\<close>
  lines 64 to 161: the same text in both files).
\<close>

definition generate_from_schema :: "unicode \<Rightarrow> (string list \<Rightarrow> string list) \<Rightarrow> yaml \<Rightarrow> py_exception + string" where
  "generate_from_schema U set_order schema =
     (case schema of
        YDict root \<Rightarrow>
          (case dict_get root ''tables'' of
             Some (YDict tables) \<Rightarrow>
               (case render_tables U initial_state tables of
                  Inl e \<Rightarrow> Inl e
                | Inr st \<Rightarrow> Inr (full_code (final_imports set_order st) (model_code_lines st)))
           | _ \<Rightarrow> Inl (ValueError, Invalid_schema))
      | _ \<Rightarrow> Inl (ValueError, Invalid_schema))"

text \<open>
  \<^verbatim>\<open>generate_models_code\<close> of \<^verbatim>\<open>main.py\<close>. The files are a map from paths to
  contents: a path without content is a missing file. \<open>safe_load\<close> is the parser of
  the YAML library, which returns the tree or fails with a diagnostic.
\<close>

definition generate_models_code ::
  "unicode \<Rightarrow> (string list \<Rightarrow> string list) \<Rightarrow> (string \<rightharpoonup> string) \<Rightarrow> (string \<Rightarrow> string + yaml) \<Rightarrow> string
     \<Rightarrow> py_exception + string" where
  "generate_models_code U set_order files safe_load yaml_path =
     (case files yaml_path of
        None \<Rightarrow> Inl (ValueError, File_not_found yaml_path)
      | Some text \<Rightarrow>
          (case safe_load text of
             Inl diagnostic \<Rightarrow> Inl (ValueError, Parse_failed_file yaml_path diagnostic)
           | Inr schema \<Rightarrow> generate_from_schema U set_order schema))"

text \<open>\<^verbatim>\<open>generate_models_code\<close> of \<^verbatim>\<open>update.py\<close>, which takes the text itself.\<close>

definition generate_models_code_update ::
  "unicode \<Rightarrow> (string list \<Rightarrow> string list) \<Rightarrow> (string \<Rightarrow> string + yaml) \<Rightarrow> string \<Rightarrow> py_exception + string" where
  "generate_models_code_update U set_order safe_load yaml_content =
     (case safe_load yaml_content of
        Inl diagnostic \<Rightarrow> Inl (ValueError, Parse_failed_content diagnostic)
      | Inr schema \<Rightarrow> generate_from_schema U set_order schema)"


section \<open>The specification's reading of the generator\<close>

text \<open>
  The definitions of this section are not taken from the source: they write down what the
  specification says, to be compared with the definitions above.
\<close>

definition type_tags :: "string list" where
  "type_tags = [''Integer'', ''String'', ''DateTime'', ''Boolean'', ''Float'', ''Text'']"

subsection \<open>The declaration of a column\<close>

definition opt_arg :: "bool \<Rightarrow> string \<Rightarrow> string list" where
  "opt_arg present arg = (if present then [arg] else [])"

text \<open>
  The literal normalization rule: a string as a quoted literal, every other value by its
  plain textual form.
\<close>

definition spec_literal :: "unicode \<Rightarrow> yaml \<Rightarrow> string" where
  "spec_literal U v = (case v of YStr s \<Rightarrow> repr_str U s | _ \<Rightarrow> py_str U v)"

text \<open>
  The default of a column: a string with the reserved prefix as it is, as a server side
  default; any other value as a client side default, by the rule above.
\<close>

definition spec_default_arg :: "unicode \<Rightarrow> yaml \<Rightarrow> string" where
  "spec_default_arg U v =
     (case v of
        YStr s \<Rightarrow>
          if startswith s ''func.'' then ''server_default='' @ s
          else ''default='' @ spec_literal U v
      | _ \<Rightarrow> ''default='' @ spec_literal U v)"

definition spec_column_args :: "unicode \<Rightarrow> py_dict \<Rightarrow> string list" where
  "spec_column_args U col_def =
     opt_arg (get_truthy col_def ''primary_key'') ''primary_key=True'' @
     opt_arg (get_truthy col_def ''autoincrement'') ''autoincrement=True'' @
     opt_arg (dict_get col_def ''nullable'' = Some (YBool False)) ''nullable=False'' @
     opt_arg (get_truthy col_def ''unique'') ''unique=True'' @
     (case dict_get col_def ''default'' of None \<Rightarrow> [] | Some v \<Rightarrow> [spec_default_arg U v]) @
     opt_arg (get_truthy col_def ''index'') ''index=True'' @
     (case dict_get col_def ''comment'' of
        None \<Rightarrow> []
      | Some c \<Rightarrow> [''comment='' @ spec_literal U c])"

definition spec_column_type :: "unicode \<Rightarrow> string \<Rightarrow> py_dict \<Rightarrow> string" where
  "spec_column_type U tag col_def =
     (if tag = ''String'' \<and> dict_get col_def ''length'' \<noteq> None
      then ''String(length='' @ py_str U (the (dict_get col_def ''length'')) @ '')''
      else tag)"

definition spec_column_line :: "string \<Rightarrow> string \<Rightarrow> string list \<Rightarrow> string" where
  "spec_column_line name type_str args =
     (if args \<noteq> []
      then ''    '' @ name @ '' = Column('' @ type_str @ '', '' @ join '', '' args @ '')''
      else ''    '' @ name @ '' = Column('' @ type_str @ '')'')"

subsection \<open>The names of a table\<close>

text \<open>
  The class name as the specification derives it, for a key of ASCII characters: the first
  letter of every segment in upper case, the rest of the segment unchanged.
\<close>

fun spec_capitalize_first :: "string \<Rightarrow> string" where
  "spec_capitalize_first [] = []"
| "spec_capitalize_first (c # cs) = to_upper c # cs"

definition spec_class_name :: "string \<Rightarrow> string" where
  "spec_class_name key = concat (map spec_capitalize_first (split_on CHR ''_'' key))"

text \<open>
  The documentation block of a table: nothing without a description; otherwise the
  description between two lines of three double quotes, each of its lines trimmed and
  indented.
\<close>

definition spec_docstring :: "unicode \<Rightarrow> yaml \<Rightarrow> string list" where
  "spec_docstring U d =
     (case d of
        YStr s \<Rightarrow>
          if s = [] then []
          else [''    '' @ [CHR 0x22, CHR 0x22, CHR 0x22]] @
               map (\<lambda>line. ''    '' @ strip U line) (split_on CHR 0x0A (strip U s)) @
               [''    '' @ [CHR 0x22, CHR 0x22, CHR 0x22]]
      | _ \<Rightarrow> [])"

subsection \<open>The tables and columns of a schema\<close>

definition schema_tables :: "yaml \<Rightarrow> (yaml \<times> yaml) list" where
  "schema_tables schema =
     (case schema of
        YDict root \<Rightarrow> (case dict_get root ''tables'' of Some (YDict tables) \<Rightarrow> tables | _ \<Rightarrow> [])
      | _ \<Rightarrow> [])"

definition table_columns :: "yaml \<times> yaml \<Rightarrow> (yaml \<times> yaml) list" where
  "table_columns tbl =
     (case snd tbl of
        YDict table_def \<Rightarrow>
          (case dict_get table_def ''columns'' of Some (YDict cols) \<Rightarrow> cols | _ \<Rightarrow> [])
      | _ \<Rightarrow> [])"

definition schema_columns :: "yaml \<Rightarrow> (yaml \<times> yaml) list" where
  "schema_columns schema = concat (map table_columns (schema_tables schema))"

text \<open>The type tag of a column, when it is a string.\<close>

definition column_tag :: "yaml \<times> yaml \<Rightarrow> string" where
  "column_tag col =
     (case snd col of
        YDict col_def \<Rightarrow> (case dict_get col_def ''type'' of Some (YStr t) \<Rightarrow> t | _ \<Rightarrow> [])
      | _ \<Rightarrow> [])"

text \<open>Whether the default of a column is a string with the reserved prefix.\<close>

definition column_has_func_default :: "yaml \<times> yaml \<Rightarrow> bool" where
  "column_has_func_default col =
     (case snd col of YDict col_def \<Rightarrow> sets_func_import col_def | _ \<Rightarrow> False)"

definition uses_func :: "yaml \<Rightarrow> bool" where
  "uses_func schema = list_ex column_has_func_default (schema_columns schema)"

subsection \<open>The shape of a schema\<close>

text \<open>
  The rules of the validator: the root is a mapping with a mapping \<open>tables\<close>, every
  table is a mapping with a mapping \<open>columns\<close>, every column is a mapping whose
  \<open>type\<close> is one of the six tags.
\<close>

definition valid_column :: "yaml \<times> yaml \<Rightarrow> bool" where
  "valid_column col =
     (case snd col of
        YDict col_def \<Rightarrow>
          (case dict_get col_def ''type'' of Some (YStr t) \<Rightarrow> t \<in> set type_tags | _ \<Rightarrow> False)
      | _ \<Rightarrow> False)"

definition valid_table :: "yaml \<times> yaml \<Rightarrow> bool" where
  "valid_table tbl =
     (case snd tbl of
        YDict table_def \<Rightarrow>
          (case dict_get table_def ''columns'' of
             Some (YDict cols) \<Rightarrow> list_all valid_column cols
           | _ \<Rightarrow> False)
      | _ \<Rightarrow> False)"

definition valid_schema :: "yaml \<Rightarrow> bool" where
  "valid_schema schema =
     (case schema of
        YDict root \<Rightarrow>
          (case dict_get root ''tables'' of
             Some (YDict tables) \<Rightarrow> list_all valid_table tables
           | _ \<Rightarrow> False)
      | _ \<Rightarrow> False)"

text \<open>
  The types of the data model: a table key is a string, a description is a string (or
  absent, or a false value), the \<open>type\<close> of a column is a scalar.
\<close>

definition typed_column :: "yaml \<times> yaml \<Rightarrow> bool" where
  "typed_column col =
     (case snd col of
        YDict col_def \<Rightarrow> (case dict_get col_def ''type'' of Some t \<Rightarrow> hashable t | None \<Rightarrow> True)
      | _ \<Rightarrow> True)"

definition typed_description :: "yaml \<Rightarrow> bool" where
  "typed_description d = (case d of YStr _ \<Rightarrow> True | _ \<Rightarrow> \<not> truthy d)"

definition typed_table :: "yaml \<times> yaml \<Rightarrow> bool" where
  "typed_table tbl =
     (case snd tbl of
        YDict table_def \<Rightarrow>
          (case fst tbl of YStr _ \<Rightarrow> True | _ \<Rightarrow> False) \<and>
          typed_description (table_description_of table_def) \<and>
          list_all typed_column (table_columns tbl)
      | _ \<Rightarrow> True)"

definition typed_schema :: "yaml \<Rightarrow> bool" where
  "typed_schema schema = list_all typed_table (schema_tables schema)"

subsection \<open>The import block\<close>

text \<open>
  The block as the specification orders it: the base helper first and the used tokens
  sorted after it, then the import of the function namespace when it is needed, then the
  import of the base class factory.
\<close>

definition spec_import_block :: "string list \<Rightarrow> bool \<Rightarrow> string list" where
  "spec_import_block tags needs_func =
     [''from sqlalchemy import '' @ join '', '' (''Column'' # sort (remdups tags))] @
     (if needs_func then [''from sqlalchemy.sql import func''] else []) @
     [''from sqlalchemy.ext.declarative import declarative_base'']"

text \<open>
  The block with every list sorted: the base helper among the tokens, the import of the
  function namespace last.
\<close>

definition sorted_import_block :: "string list \<Rightarrow> bool \<Rightarrow> string list" where
  "sorted_import_block tags needs_func =
     [''from sqlalchemy import '' @ join '', '' (sort (remdups (''Column'' # tags))),
      ''from sqlalchemy.ext.declarative import declarative_base''] @
     (if needs_func then [''from sqlalchemy.sql import func''] else [])"

subsection \<open>Exceptions\<close>

text \<open>The class of the exception a call raises, if it raises one.\<close>

definition raised_class :: "py_exception + 'a \<Rightarrow> exc_class option" where
  "raised_class r = (case r of Inl e \<Rightarrow> Some (fst e) | Inr _ \<Rightarrow> None)"

text \<open>An order of iteration yields every member of a set once.\<close>

definition iterates :: "(string list \<Rightarrow> string list) \<Rightarrow> bool" where
  "iterates set_order = (\<forall>xs. mset (set_order xs) = mset xs)"

text \<open>The messages of the validator (lines 65, 79, 98, 102 and 106).\<close>

fun is_schema_message :: "message \<Rightarrow> bool" where
  "is_schema_message Invalid_schema = True"
| "is_schema_message (Bad_table_def t) = True"
| "is_schema_message (Bad_columns t) = True"
| "is_schema_message (Bad_column_def t c) = True"
| "is_schema_message (Unsupported_type y c) = True"
| "is_schema_message m = False"

section \<open>Properties\<close>

subsection \<open>Evaluation and basic facts\<close>

lemmas string_defs =
  to_upper_def to_lower_def ascii_lowercase_def ascii_uppercase_def lower_def strip_def
  capitalize_def is_ascii_def is_space_def str_int_def repr_str_def ascii_repr_def repr_char_def
  py_str_def normalize_yaml_value_def Let_def

lemmas column_defs =
  render_column_def column_line_def column_type_str_def column_args_def sets_func_import_def
  is_func_default_def get_truthy_def dict_get_def hashable_def type_token_def SQLA_TYPE_MAP_def
  set_add_def initial_state_def

lemmas table_defs =
  render_table_def table_head_def docstring_lines_def class_name_of_def db_table_name_of_def
  table_description_of_def snake_to_pascal_def

lemmas spec_defs =
  spec_column_line_def spec_column_type_def spec_column_args_def spec_default_arg_def
  spec_literal_def opt_arg_def type_tags_def

lemma join_eq_Nil:
  "join sep xs = [] \<longleftrightarrow> (\<forall>x \<in> set xs. x = []) \<and> (sep = [] \<or> length xs \<le> 1)"
  by (induction sep xs rule: join.induct) auto

lemma type_token_Some: "type_token v = Some tok \<Longrightarrow> v = YStr tok \<and> tok \<in> set type_tags"
  by (auto simp: type_token_def SQLA_TYPE_MAP_def type_tags_def split: yaml.splits if_splits)

lemma type_token_tag: "tag \<in> set type_tags \<Longrightarrow> type_token (YStr tag) = Some tag"
  by (auto simp: type_token_def SQLA_TYPE_MAP_def type_tags_def)

text \<open>What a column that is accepted does to the accumulators.\<close>

lemma render_column_Inr:
  assumes "render_column U table_key st (name, v) = Inr st'"
  shows "\<exists>col_def tag. v = YDict col_def \<and> dict_get col_def ''type'' = Some (YStr tag) \<and>
     tag \<in> set type_tags \<and>
     st' = st\<lparr>used_sqlalchemy_types := set_add (used_sqlalchemy_types st) tag,
              needs_sqlalchemy_func_import :=
                (needs_sqlalchemy_func_import st \<or> sets_func_import col_def),
              model_code_lines := model_code_lines st @
                [column_line U name (column_type_str U (YStr tag) col_def tag) (column_args U col_def)]\<rparr>"
  using assms
  by (auto simp: render_column_def Let_def split: yaml.splits option.splits if_splits
      dest!: type_token_Some)

subsection \<open>The declaration line of a column\<close>

text \<open>The literal of the code is the literal of the rule.\<close>

lemma normalize_spec: "normalize_yaml_value U v = spec_literal U v"
  by (simp add: normalize_yaml_value_def spec_literal_def)

lemma default_arg_spec:
  "(if is_func_default v then args @ [''server_default='' @ py_str U v]
    else args @ [''default='' @ normalize_yaml_value U v]) = args @ [spec_default_arg U v]"
  by (cases v) (simp_all add: is_func_default_def spec_default_arg_def py_str_def normalize_spec)

lemma column_args_spec: "column_args U col_def = spec_column_args U col_def"
  by (simp add: column_args_def spec_column_args_def opt_arg_def default_arg_spec normalize_spec
      Let_def split: option.splits)

lemma spec_default_arg_nonempty: "spec_default_arg U v \<noteq> []" "[] \<noteq> spec_default_arg U v"
  by (cases v; simp add: spec_default_arg_def)+

lemma spec_column_args_nonempty: "a \<in> set (spec_column_args U col_def) \<Longrightarrow> a \<noteq> []"
  by (auto simp: spec_column_args_def opt_arg_def spec_default_arg_nonempty
      split: option.splits if_splits)

lemma column_line_spec:
  "column_line U name ty (column_args U col_def) =
   spec_column_line (py_str U name) ty (spec_column_args U col_def)"
proof (cases "spec_column_args U col_def")
  case Nil
  then show ?thesis
    by (simp add: column_line_def spec_column_line_def column_args_spec)
next
  case (Cons a as)
  then have "a \<noteq> []"
    using spec_column_args_nonempty [of a U col_def] by simp
  then have "join '', '' (spec_column_args U col_def) \<noteq> []"
    by (simp add: join_eq_Nil Cons)
  with Cons show ?thesis
    by (simp add: column_line_def spec_column_line_def column_args_spec)
qed

lemma column_type_str_spec: "column_type_str U (YStr tag) col_def tag = spec_column_type U tag col_def"
  by (simp add: column_type_str_def spec_column_type_def split: option.splits)

text \<open>
  C1. Every column that the generator accepts is a mapping whose \<open>type\<close> is one of the
  six tags, and the line appended for it is the line of the specification: four spaces of
  indentation, the name, and \<open>Column\<close> applied to the type (the bare token, or
  \<open>String(length=n)\<close> for a \<open>String\<close> with a \<open>length\<close>) and to the arguments
  \<open>primary_key\<close>, \<open>autoincrement\<close>, \<open>nullable=False\<close>, \<open>unique\<close>, the default,
  \<open>index\<close>, \<open>comment\<close> in this order, each present only when its field asks for it;
  with no argument the type stands alone.
\<close>

theorem column_declaration_line:
  assumes "render_column U table_key st (name, v) = Inr st'"
  shows "\<exists>col_def tag. v = YDict col_def \<and> dict_get col_def ''type'' = Some (YStr tag) \<and>
     tag \<in> set type_tags \<and>
     model_code_lines st' = model_code_lines st @
       [spec_column_line (py_str U name) (spec_column_type U tag col_def) (spec_column_args U col_def)]"
proof -
  from render_column_Inr [OF assms] obtain col_def tag where
    h: "v = YDict col_def" "dict_get col_def ''type'' = Some (YStr tag)" "tag \<in> set type_tags"
    and st': "model_code_lines st' = model_code_lines st @
       [column_line U name (column_type_str U (YStr tag) col_def tag) (column_args U col_def)]"
    by fastforce
  from st' have "model_code_lines st' = model_code_lines st @
       [spec_column_line (py_str U name) (spec_column_type U tag col_def) (spec_column_args U col_def)]"
    by (simp add: column_line_spec column_type_str_spec)
  with h show ?thesis by blast
qed

theorem column_declaration_line_witness:
  "\<exists>st'. render_column no_unicode (YStr ''users'') initial_state
       (YStr ''name'',
        YDict [(YStr ''type'', YStr ''String''), (YStr ''length'', YInt 100),
               (YStr ''primary_key'', YBool True), (YStr ''autoincrement'', YBool False),
               (YStr ''nullable'', YBool False), (YStr ''unique'', YBool True),
               (YStr ''default'', YStr ''anonymous''), (YStr ''index'', YBool True),
               (YStr ''comment'', YStr ''full name'')]) = Inr st'
     \<and> model_code_lines st' =
         [''    name = Column(String(length=100), primary_key=True, nullable=False, '' @
          ''unique=True, default='' @ [CHR 0x27] @ ''anonymous'' @ [CHR 0x27] @
          '', index=True, comment='' @ [CHR 0x27] @ ''full name'' @ [CHR 0x27] @ '')'']"
proof -
  let ?cd = "[(YStr ''type'', YStr ''String''), (YStr ''length'', YInt 100),
               (YStr ''primary_key'', YBool True), (YStr ''autoincrement'', YBool False),
               (YStr ''nullable'', YBool False), (YStr ''unique'', YBool True),
               (YStr ''default'', YStr ''anonymous''), (YStr ''index'', YBool True),
               (YStr ''comment'', YStr ''full name'')]"
  let ?line = "''    name = Column(String(length=100), primary_key=True, nullable=False, '' @
          ''unique=True, default='' @ [CHR 0x27] @ ''anonymous'' @ [CHR 0x27] @
          '', index=True, comment='' @ [CHR 0x27] @ ''full name'' @ [CHR 0x27] @ '')''"
  obtain st' where r:
    "render_column no_unicode (YStr ''users'') initial_state (YStr ''name'', YDict ?cd) = Inr st'"
    by (simp add: column_defs)
  from r have code: "model_code_lines st' = [?line]"
    by (auto simp: column_defs string_defs)
  from column_declaration_line [OF r] obtain col_def tag where
    h: "YDict ?cd = YDict col_def" "dict_get col_def ''type'' = Some (YStr tag)"
    and l: "model_code_lines st' = model_code_lines initial_state @
       [spec_column_line (py_str no_unicode (YStr ''name'')) (spec_column_type no_unicode tag col_def)
          (spec_column_args no_unicode col_def)]"
    by blast
  from h have tag: "tag = ''String''" by (auto simp: dict_get_def)
  from h(1) have cd: "col_def = ?cd"
    by simp
  have spec: "model_code_lines st' = [?line]"
    unfolding l tag cd
    by (simp add: spec_defs string_defs get_truthy_def is_func_default_def dict_get_def
        initial_state_def)
  from r code spec show ?thesis by blast
qed
subsection \<open>The nullable argument\<close>

lemma startswith_append: "startswith (p @ s) p"
  by (induction p) auto

lemma spec_default_arg_not_nullable: "\<not> startswith (spec_default_arg U v) ''nullable''"
  by (cases v) (simp_all add: spec_default_arg_def)

lemma spec_default_arg_cases:
  "is_func_default v \<and> spec_default_arg U v = ''server_default='' @ py_str U v \<or>
   \<not> is_func_default v \<and> spec_default_arg U v = ''default='' @ spec_literal U v"
  by (cases v) (simp_all add: spec_default_arg_def is_func_default_def py_str_def)

text \<open>
  C7. The declaration line of a column carries the argument \<open>nullable=False\<close> exactly
  when the field \<open>nullable\<close> is the boolean false; when the key is absent or has any
  other value, \<open>true\<close> included, no argument of the line begins with \<open>nullable\<close>.
\<close>

theorem nullable_asymmetry:
  assumes "render_column U table_key st (name, YDict col_def) = Inr st'"
  shows "\<exists>type_str.
     model_code_lines st' = model_code_lines st @ [column_line U name type_str (column_args U col_def)] \<and>
     (dict_get col_def ''nullable'' = Some (YBool False) \<longrightarrow>
        ''nullable=False'' \<in> set (column_args U col_def)) \<and>
     (dict_get col_def ''nullable'' \<noteq> Some (YBool False) \<longrightarrow>
        (\<forall>a \<in> set (column_args U col_def). \<not> startswith a ''nullable''))"
proof -
  from render_column_Inr [OF assms] obtain type_str where
    "model_code_lines st' = model_code_lines st @ [column_line U name type_str (column_args U col_def)]"
    by fastforce
  moreover have "dict_get col_def ''nullable'' = Some (YBool False) \<Longrightarrow>
      ''nullable=False'' \<in> set (column_args U col_def)"
    by (simp add: column_args_spec spec_column_args_def opt_arg_def)
  moreover have "\<not> startswith a ''nullable''"
    if "dict_get col_def ''nullable'' \<noteq> Some (YBool False)" "a \<in> set (column_args U col_def)" for a
    using that
    by (auto simp: column_args_spec spec_column_args_def opt_arg_def spec_default_arg_not_nullable
        split: option.splits if_splits)
  ultimately show ?thesis by blast
qed

theorem nullable_asymmetry_witness:
  "(\<exists>st'. render_column no_unicode (YStr ''users'') initial_state
       (YStr ''email'', YDict [(YStr ''type'', YStr ''Text''), (YStr ''nullable'', YBool False)])
       = Inr st'
     \<and> model_code_lines st' = [''    email = Column(Text, nullable=False)'']) \<and>
   (\<exists>st'. render_column no_unicode (YStr ''users'') initial_state
       (YStr ''bio'', YDict [(YStr ''type'', YStr ''Text''), (YStr ''nullable'', YBool True),
                            (YStr ''index'', YBool True)])
       = Inr st'
     \<and> model_code_lines st' = [''    bio = Column(Text, index=True)'']
     \<and> (\<forall>a \<in> set (column_args no_unicode [(YStr ''type'', YStr ''Text''), (YStr ''nullable'', YBool True),
                            (YStr ''index'', YBool True)]). \<not> startswith a ''nullable''))"
proof -
  let ?c1 = "[(YStr ''type'', YStr ''Text''), (YStr ''nullable'', YBool False)]"
  let ?c2 = "[(YStr ''type'', YStr ''Text''), (YStr ''nullable'', YBool True),
              (YStr ''index'', YBool True)]"
  obtain s1 where r1:
    "render_column no_unicode (YStr ''users'') initial_state (YStr ''email'', YDict ?c1) = Inr s1"
    by (simp add: column_defs)
  obtain s2 where r2:
    "render_column no_unicode (YStr ''users'') initial_state (YStr ''bio'', YDict ?c2) = Inr s2"
    by (simp add: column_defs)
  from nullable_asymmetry [OF r1] have
    "''nullable=False'' \<in> set (column_args no_unicode ?c1)"
    by (simp add: dict_get_def)
  moreover from r1 have "model_code_lines s1 = [''    email = Column(Text, nullable=False)'']"
    by (auto simp: column_defs string_defs)
  moreover from nullable_asymmetry [OF r2] have
    "\<forall>a \<in> set (column_args no_unicode ?c2). \<not> startswith a ''nullable''"
    by (simp add: dict_get_def)
  moreover from r2 have "model_code_lines s2 = [''    bio = Column(Text, index=True)'']"
    by (auto simp: column_defs string_defs)
  ultimately show ?thesis using r1 r2 by blast
qed

subsection \<open>The names of a table\<close>

lemma split_on_nonempty: "split_on sep s \<noteq> []"
  by (induction s) (auto split: list.splits)

lemma split_on_no_sep: "sep \<notin> set w \<Longrightarrow> split_on sep w = [w]"
  by (induction w) auto

lemma split_on_append:
  "sep \<notin> set w \<Longrightarrow> split_on sep (w @ sep # s) = w # split_on sep s"
  by (induction w) auto

lemma split_on_join:
  "ws \<noteq> [] \<Longrightarrow> \<forall>w \<in> set ws. sep \<notin> set w \<Longrightarrow> split_on sep (join [sep] ws) = ws"
proof (induction "[sep]" ws rule: join.induct)
  case 1
  then show ?case by simp
next
  case (2 x)
  then show ?case by (simp add: split_on_no_sep)
next
  case (3 x y ys)
  then show ?case by (simp add: split_on_append)
qed

text \<open>Every key is its segments joined by underscores.\<close>

lemma join_split_on: "join [sep] (split_on sep s) = s"
proof (induction s)
  case Nil
  then show ?case by simp
next
  case (Cons c cs)
  obtain w ws where ws: "split_on sep cs = w # ws"
    using split_on_nonempty [of sep cs] by (cases "split_on sep cs") auto
  with Cons show ?case
    by (cases ws) auto
qed

lemma split_on_segments: "\<forall>w \<in> set (split_on sep s). sep \<notin> set w"
  by (induction s) (auto split: list.splits)

lemma ascii_capitalize_unchanged_rest:
  "\<forall>c \<in> set (tl w). to_lower c = c \<Longrightarrow> ascii_capitalize w = spec_capitalize_first w"
  by (cases w) (simp_all add: map_idI)

text \<open>
  C6, as the specification states it, fails: the class name derived from the key
  \<open>orderItem\<close> is \<open>Orderitem\<close>, because \<^verbatim>\<open>capitalize\<close> also puts the rest of a
  segment in lower case, while the specification's name is \<open>OrderItem\<close>.
\<close>

theorem class_name_counterexample:
  "class_name_of no_unicode ''orderItem'' [(YStr ''columns'', YDict [])] = YStr ''Orderitem'' \<and>
   class_name_of no_unicode ''orderItem'' [(YStr ''columns'', YDict [])] \<noteq>
     YStr (spec_class_name ''orderItem'')"
  by (simp add: class_name_of_def snake_to_pascal_def spec_class_name_def dict_get_def
      string_defs)

text \<open>
  C6, amended. Take a table whose key is made of the segments \<open>ws\<close> joined by
  underscores. If the table gives no \<open>class_name\<close>, the class header names the
  concatenation of the segments, each one passed through \<^verbatim>\<open>str.capitalize\<close>, whether or
  not a \<open>table_name\<close> is given. If the table gives no \<open>table_name\<close>, the table name
  binding is the key passed through \<^verbatim>\<open>str.lower\<close>, underscores kept, whether or not a
  \<open>class_name\<close> is given. On an ASCII segment \<^verbatim>\<open>str.capitalize\<close> puts the first
  letter in upper case and all the others in lower case, and \<^verbatim>\<open>str.lower\<close> puts every
  letter of an ASCII key in lower case; so the class name is the name of the specification
  when the segments are ASCII and none has an upper case letter after its first character.
\<close>

theorem derived_names:
  assumes "ws \<noteq> []" and "\<forall>w \<in> set ws. CHR ''_'' \<notin> set w"
  shows "(dict_get table_def ''class_name'' = None \<longrightarrow>
      hd (table_head U (join ''_'' ws) table_def doc) =
        ''class '' @ concat (map (capitalize U) ws) @ ''(Base):'') \<and>
    (dict_get table_def ''table_name'' = None \<longrightarrow>
      table_head U (join ''_'' ws) table_def doc ! (length doc + 1) =
        ''    __tablename__ = '' @ [CHR 0x27] @ lower U (join ''_'' ws) @ [CHR 0x27]) \<and>
    (\<forall>w \<in> set ws. is_ascii w \<longrightarrow>
      capitalize U w = (case w of [] \<Rightarrow> [] | c # cs \<Rightarrow> to_upper c # map to_lower cs)) \<and>
    (is_ascii (join ''_'' ws) \<longrightarrow> lower U (join ''_'' ws) = map to_lower (join ''_'' ws)) \<and>
    (dict_get table_def ''class_name'' = None \<and>
     (\<forall>w \<in> set ws. is_ascii w \<and> (\<forall>c \<in> set (tl w). to_lower c = c)) \<longrightarrow>
      class_name_of U (join ''_'' ws) table_def = YStr (spec_class_name (join ''_'' ws)))"
proof -
  have s: "split_on CHR ''_'' (join ''_'' ws) = ws"
    using assms by (rule split_on_join)
  have c: "hd (table_head U (join ''_'' ws) table_def doc) =
        ''class '' @ concat (map (capitalize U) ws) @ ''(Base):''"
    if "dict_get table_def ''class_name'' = None"
    using that by (simp add: table_head_def class_name_of_def snake_to_pascal_def s py_str_def)
  have t: "table_head U (join ''_'' ws) table_def doc ! (length doc + 1) =
        ''    __tablename__ = '' @ [CHR 0x27] @ lower U (join ''_'' ws) @ [CHR 0x27]"
    if "dict_get table_def ''table_name'' = None"
    using that by (simp add: table_head_def db_table_name_of_def py_str_def nth_append)
  have a: "capitalize U w = (case w of [] \<Rightarrow> [] | c # cs \<Rightarrow> to_upper c # map to_lower cs)"
    if "is_ascii w" for w
    using that by (cases w) (simp_all add: capitalize_def)
  have l: "lower U (join ''_'' ws) = map to_lower (join ''_'' ws)" if "is_ascii (join ''_'' ws)"
    using that by (simp add: lower_def)
  have n: "class_name_of U (join ''_'' ws) table_def = YStr (spec_class_name (join ''_'' ws))"
    if "dict_get table_def ''class_name'' = None"
      and "\<forall>w \<in> set ws. is_ascii w \<and> (\<forall>c \<in> set (tl w). to_lower c = c)"
  proof -
    from that(2) have "map (capitalize U) ws = map spec_capitalize_first ws"
      by (simp add: capitalize_def ascii_capitalize_unchanged_rest)
    then have eq: "concat (map (capitalize U) ws) = concat (map spec_capitalize_first ws)"
      by (rule arg_cong)
    show ?thesis
      by (simp add: class_name_of_def snake_to_pascal_def spec_class_name_def s eq that(1))
  qed
  from c t a l n show ?thesis by blast
qed

theorem derived_names_witness:
  "hd (table_head no_unicode ''User''
         [(YStr ''table_name'', YStr ''users''), (YStr ''columns'', YDict [])] []) =
     ''class User(Base):'' \<and>
   table_head no_unicode ''Order''
         [(YStr ''class_name'', YStr ''PurchaseOrder''), (YStr ''columns'', YDict [])] [] ! 1 =
     ''    __tablename__ = '' @ [CHR 0x27] @ ''order'' @ [CHR 0x27] \<and>
   table_head no_unicode ''user_profile'' [(YStr ''columns'', YDict [])] [] =
     [''class UserProfile(Base):'',
      ''    __tablename__ = '' @ [CHR 0x27] @ ''user_profile'' @ [CHR 0x27], []] \<and>
   class_name_of no_unicode ''user_profile'' [(YStr ''columns'', YDict [])] =
     YStr (spec_class_name ''user_profile'')"
proof -
  let ?t1 = "[(YStr ''table_name'', YStr ''users''), (YStr ''columns'', YDict [])]"
  let ?t2 = "[(YStr ''class_name'', YStr ''PurchaseOrder''), (YStr ''columns'', YDict [])]"
  let ?t3 = "[(YStr ''columns'', YDict [])]"
  have n1: "[''User''] \<noteq> []" "\<forall>w \<in> set [''User'']. CHR ''_'' \<notin> set w"
    by simp_all
  have n2: "[''Order''] \<noteq> []" "\<forall>w \<in> set [''Order'']. CHR ''_'' \<notin> set w"
    by simp_all
  have n3: "[''user'', ''profile''] \<noteq> []" "\<forall>w \<in> set [''user'', ''profile'']. CHR ''_'' \<notin> set w"
    by simp_all
  have a3: "\<forall>w \<in> set [''user'', ''profile'']. is_ascii w \<and> (\<forall>c \<in> set (tl w). to_lower c = c)"
    by (simp add: string_defs)
  from derived_names [OF n1, of ?t1 no_unicode "[]"]
  have w1: "hd (table_head no_unicode ''User'' ?t1 []) = ''class User(Base):''"
    by (simp add: dict_get_def string_defs)
  from derived_names [OF n2, of ?t2 no_unicode "[]"]
  have w2: "table_head no_unicode ''Order'' ?t2 [] ! 1 =
     ''    __tablename__ = '' @ [CHR 0x27] @ ''order'' @ [CHR 0x27]"
    by (simp add: dict_get_def string_defs)
  from derived_names [OF n3, of ?t3 no_unicode "[]"] a3
  have w3: "hd (table_head no_unicode ''user_profile'' ?t3 []) = ''class UserProfile(Base):'' \<and>
     table_head no_unicode ''user_profile'' ?t3 [] ! 1 =
       ''    __tablename__ = '' @ [CHR 0x27] @ ''user_profile'' @ [CHR 0x27] \<and>
     class_name_of no_unicode ''user_profile'' ?t3 = YStr (spec_class_name ''user_profile'')"
    by (simp add: dict_get_def string_defs)
  have l3: "table_head no_unicode ''user_profile'' ?t3 [] =
     [hd (table_head no_unicode ''user_profile'' ?t3 []),
      table_head no_unicode ''user_profile'' ?t3 [] ! 1, []]"
    by (simp add: table_head_def)
  from w1 w2 w3 l3 show ?thesis by simp
qed
subsection \<open>Failures stop the loops\<close>

lemma render_columns_append:
  "render_columns U table_key st (pre @ post) =
     (case render_columns U table_key st pre of
        Inl e \<Rightarrow> Inl e
      | Inr st' \<Rightarrow> render_columns U table_key st' post)"
  by (induction pre arbitrary: st) (auto split: sum.splits)

lemma render_tables_append:
  "render_tables U st (pre @ post) =
     (case render_tables U st pre of
        Inl e \<Rightarrow> Inl e
      | Inr st' \<Rightarrow> render_tables U st' post)"
  by (induction pre arbitrary: st) (auto split: sum.splits)

lemma render_columns_Inr_valid:
  "render_columns U table_key st cols = Inr st' \<Longrightarrow> list_all valid_column cols"
proof (induction cols arbitrary: st)
  case Nil
  then show ?case by simp
next
  case (Cons col cols)
  then obtain st1 where c: "render_column U table_key st col = Inr st1"
    and r: "render_columns U table_key st1 cols = Inr st'"
    by (auto split: sum.splits)
  from c have "valid_column col"
    by (cases col) (auto simp: valid_column_def dest!: render_column_Inr)
  with Cons.IH [OF r] show ?case by simp
qed

lemma render_table_Inr_valid: "render_table U st tbl = Inr st' \<Longrightarrow> valid_table tbl"
  by (auto simp: render_table_def valid_table_def Let_def
      split: yaml.splits sum.splits option.splits dest: render_columns_Inr_valid)

lemma render_tables_Inr_valid:
  "render_tables U st tbls = Inr st' \<Longrightarrow> list_all valid_table tbls"
  by (induction tbls arbitrary: st) (auto split: sum.splits dest: render_table_Inr_valid)

lemma generate_Inr_valid: "generate_from_schema U set_order schema = Inr out \<Longrightarrow> valid_schema schema"
  by (auto simp: generate_from_schema_def valid_schema_def
      split: yaml.splits option.splits sum.splits dest: render_tables_Inr_valid)

text \<open>Valid tables and columns of the types of the data model are accepted.\<close>

lemma docstring_lines_typed:
  "typed_description d \<Longrightarrow> docstring_lines U d = Inr (spec_docstring U d)"
  by (cases d) (auto simp: typed_description_def docstring_lines_def spec_docstring_def)

lemma render_column_valid:
  "valid_column col \<Longrightarrow> \<exists>st'. render_column U table_key st col = Inr st'"
  by (auto simp: valid_column_def render_column_def hashable_def type_token_tag Let_def
      split: yaml.splits option.splits)

lemma render_columns_valid:
  "list_all valid_column cols \<Longrightarrow> \<exists>st'. render_columns U table_key st cols = Inr st'"
proof (induction cols arbitrary: st)
  case Nil
  then show ?case by simp
next
  case (Cons col cols)
  then obtain st1 where "render_column U table_key st col = Inr st1"
    using render_column_valid [of col U table_key st] by auto
  with Cons show ?case by simp
qed

lemma valid_table_cases:
  assumes "valid_table tbl"
  shows "\<exists>table_def cols. snd tbl = YDict table_def \<and>
    dict_get table_def ''columns'' = Some (YDict cols) \<and> list_all valid_column cols"
proof (cases "snd tbl")
  case (YDict table_def)
  show ?thesis
  proof (cases "dict_get table_def ''columns''")
    case None
    with assms YDict show ?thesis by (simp add: valid_table_def)
  next
    case (Some cv)
    with assms YDict show ?thesis by (cases cv) (simp_all add: valid_table_def)
  qed
qed (use assms in \<open>simp_all add: valid_table_def\<close>)

lemma render_table_valid:
  assumes "valid_table tbl" and "typed_table tbl"
  shows "\<exists>st'. render_table U st tbl = Inr st'"
proof -
  from valid_table_cases [OF assms(1)] obtain table_def cols where t: "snd tbl = YDict table_def"
    and c: "dict_get table_def ''columns'' = Some (YDict cols)" and v: "list_all valid_column cols"
    by blast
  from assms(2) t have d: "typed_description (table_description_of table_def)"
    by (simp add: typed_table_def)
  from assms(2) t obtain key where k: "fst tbl = YStr key"
    by (cases "fst tbl") (simp_all add: typed_table_def)
  let ?st1 = "st\<lparr>model_code_lines := model_code_lines st @
      table_head U key table_def (spec_docstring U (table_description_of table_def))\<rparr>"
  from render_columns_valid [OF v, of U "YStr key" ?st1] obtain st2 where
    "render_columns U (YStr key) ?st1 cols = Inr st2" by blast
  then show ?thesis
    by (simp add: render_table_def t k c docstring_lines_typed [OF d])
qed

lemma render_tables_valid:
  "list_all valid_table tbls \<Longrightarrow> list_all typed_table tbls \<Longrightarrow>
   \<exists>st'. render_tables U st tbls = Inr st'"
proof (induction tbls arbitrary: st)
  case Nil
  then show ?case by simp
next
  case (Cons tbl tbls)
  then obtain st1 where "render_table U st tbl = Inr st1"
    using render_table_valid [of tbl U st] by auto
  with Cons show ?case by simp
qed

subsection \<open>A type outside the table\<close>

text \<open>
  C9, as the specification states it, fails: for a column \<open>payload\<close> of type \<open>JSON\<close>
  in the table \<open>orders\<close> the message interpolates the type and the column, and not
  the table.
\<close>

theorem unsupported_type_counterexample:
  "generate_from_schema no_unicode id
     (YDict [(YStr ''tables'', YDict [(YStr ''orders'', YDict [(YStr ''columns'',
        YDict [(YStr ''payload'', YDict [(YStr ''type'', YStr ''JSON'')])])])])])
     = Inl (ValueError, Unsupported_type ''JSON'' ''payload'') \<and>
   ''orders'' \<notin> set (interpolated (Unsupported_type ''JSON'' ''payload''))"
  by (simp add: generate_from_schema_def table_defs column_defs string_defs)

text \<open>
  C9, amended. A column whose \<open>type\<close> is a scalar outside the six tags is refused with
  a \<^verbatim>\<open>ValueError\<close> whose message names the type and the column, and not the table.
  Generation fails with this very error when the column is the first fault of the
  document: the tables before its table are valid and of the types of the data model, its
  table has a string key and a description of the right type, and the columns before it
  are valid. Wherever the column stands, a schema that has it is never accepted.
\<close>

theorem unsupported_type:
  assumes "dict_get col_def ''type'' = Some yaml_type"
    and "hashable yaml_type"
    and "yaml_type \<notin> YStr ` set type_tags"
  shows "render_column U table_key st (name, YDict col_def) =
      Inl (ValueError, Unsupported_type (py_str U yaml_type) (py_str U name)) \<and>
    interpolated (Unsupported_type (py_str U yaml_type) (py_str U name)) =
      [py_str U yaml_type, py_str U name] \<and>
    (dict_get root ''tables'' = Some (YDict (pre @ (YStr key, YDict table_def) # post)) \<and>
     list_all valid_table pre \<and> list_all typed_table pre \<and>
     typed_description (table_description_of table_def) \<and>
     dict_get table_def ''columns'' = Some (YDict (cpre @ (name, YDict col_def) # cpost)) \<and>
     list_all valid_column cpre \<longrightarrow>
       generate_from_schema U set_order (YDict root) =
         Inl (ValueError, Unsupported_type (py_str U yaml_type) (py_str U name))) \<and>
    ((name, YDict col_def) \<in> set (schema_columns schema) \<longrightarrow>
       (\<exists>e. generate_from_schema U set_order schema = Inl e))"
proof -
  have n: "type_token yaml_type = None"
  proof (cases "type_token yaml_type")
    case None
    then show ?thesis .
  next
    case (Some tok)
    from type_token_Some [OF this] assms(3) show ?thesis by blast
  qed
  have r: "render_column U tk s (name, YDict col_def) =
      Inl (ValueError, Unsupported_type (py_str U yaml_type) (py_str U name))" for tk s
    using assms(1,2) n by (simp add: render_column_def)
  have first: "generate_from_schema U set_order (YDict root) =
         Inl (ValueError, Unsupported_type (py_str U yaml_type) (py_str U name))"
    if t: "dict_get root ''tables'' = Some (YDict (pre @ (YStr key, YDict table_def) # post))"
      and p: "list_all valid_table pre" "list_all typed_table pre"
      and d: "typed_description (table_description_of table_def)"
      and c: "dict_get table_def ''columns'' = Some (YDict (cpre @ (name, YDict col_def) # cpost))"
      and cp: "list_all valid_column cpre"
  proof -
    from render_tables_valid [OF p, of U initial_state] obtain st1 where
      s1: "render_tables U initial_state pre = Inr st1" by blast
    let ?st2 = "st1\<lparr>model_code_lines := model_code_lines st1 @
      table_head U key table_def (spec_docstring U (table_description_of table_def))\<rparr>"
    from render_columns_valid [OF cp, of U "YStr key" ?st2] obtain st3 where
      s3: "render_columns U (YStr key) ?st2 cpre = Inr st3" by blast
    have "render_columns U (YStr key) ?st2 (cpre @ (name, YDict col_def) # cpost) =
        Inl (ValueError, Unsupported_type (py_str U yaml_type) (py_str U name))"
      by (simp add: render_columns_append s3 r)
    then have "render_table U st1 (YStr key, YDict table_def) =
        Inl (ValueError, Unsupported_type (py_str U yaml_type) (py_str U name))"
      by (simp add: render_table_def c docstring_lines_typed [OF d])
    then have "render_tables U initial_state (pre @ (YStr key, YDict table_def) # post) =
        Inl (ValueError, Unsupported_type (py_str U yaml_type) (py_str U name))"
      by (simp add: render_tables_append s1)
    then show ?thesis
      by (simp add: generate_from_schema_def t)
  qed
  have "\<exists>e. generate_from_schema U set_order schema = Inl e"
    if m: "(name, YDict col_def) \<in> set (schema_columns schema)"
  proof (cases "generate_from_schema U set_order schema")
    case (Inl e)
    then show ?thesis by blast
  next
    case (Inr out)
    from generate_Inr_valid [OF this] have v: "valid_schema schema" .
    from m obtain tbl where t: "tbl \<in> set (schema_tables schema)"
      and c: "(name, YDict col_def) \<in> set (table_columns tbl)"
      by (auto simp: schema_columns_def)
    from v t have "valid_table tbl"
      by (auto simp: valid_schema_def schema_tables_def list_all_iff
          split: yaml.splits option.splits)
    with c have "valid_column (name, YDict col_def)"
      by (auto simp: valid_table_def table_columns_def list_all_iff
          split: yaml.splits option.splits)
    with assms(1,3) have False
      by (auto simp: valid_column_def split: yaml.splits)
    then show ?thesis ..
  qed
  with r first show ?thesis by simp
qed

theorem unsupported_type_witness:
  "generate_from_schema no_unicode id
     (YDict [(YStr ''tables'', YDict
        [(YStr ''users'', YDict [(YStr ''columns'',
            YDict [(YStr ''id'', YDict [(YStr ''type'', YStr ''Integer'')])])]),
         (YStr ''orders'', YDict [(YStr ''columns'',
            YDict [(YStr ''id'', YDict [(YStr ''type'', YStr ''Integer'')]),
                   (YStr ''payload'', YDict [(YStr ''type'', YStr ''JSON'')]),
                   (YStr ''extra'', YDict [(YStr ''type'', YStr ''XML'')])])])])])
   = Inl (ValueError, Unsupported_type ''JSON'' ''payload'')"
proof -
  let ?cd = "[(YStr ''type'', YStr ''JSON'')]"
  let ?pre = "[(YStr ''users'', YDict [(YStr ''columns'',
            YDict [(YStr ''id'', YDict [(YStr ''type'', YStr ''Integer'')])])])]"
  let ?cpre = "[(YStr ''id'', YDict [(YStr ''type'', YStr ''Integer'')])]"
  let ?cpost = "[(YStr ''extra'', YDict [(YStr ''type'', YStr ''XML'')])]"
  let ?td = "[(YStr ''columns'', YDict (?cpre @ (YStr ''payload'', YDict ?cd) # ?cpost))]"
  let ?root = "[(YStr ''tables'', YDict (?pre @ (YStr ''orders'', YDict ?td) # []))]"
  have a: "dict_get ?cd ''type'' = Some (YStr ''JSON'')" by (simp add: dict_get_def)
  have b: "hashable (YStr ''JSON'')" by (simp add: hashable_def)
  have c: "YStr ''JSON'' \<notin> YStr ` set type_tags" by (auto simp: type_tags_def)
  have h: "dict_get ?root ''tables'' = Some (YDict (?pre @ (YStr ''orders'', YDict ?td) # []))"
    "list_all valid_table ?pre" "list_all typed_table ?pre"
    "typed_description (table_description_of ?td)"
    "dict_get ?td ''columns'' = Some (YDict (?cpre @ (YStr ''payload'', YDict ?cd) # ?cpost))"
    "list_all valid_column ?cpre"
    by (simp_all add: dict_get_def valid_table_def valid_column_def typed_table_def
        typed_column_def typed_description_def table_description_of_def table_columns_def
        hashable_def type_tags_def)
  from unsupported_type [OF a b c, where U = no_unicode and name = "YStr ''payload''"
      and root = ?root and pre = ?pre and key = "''orders''" and table_def = ?td and post = "[]"
      and cpre = ?cpre and cpost = ?cpost and set_order = id] h
  have "generate_from_schema no_unicode id (YDict ?root) =
      Inl (ValueError, Unsupported_type ''JSON'' ''payload'')"
    by (simp add: py_str_def)
  then show ?thesis by simp
qed
subsection \<open>The classes of the failures\<close>

lemma render_column_Inl_typed:
  "render_column U table_key st col = Inl e \<Longrightarrow> typed_column col \<Longrightarrow>
   fst e = ValueError \<and> is_schema_message (snd e)"
  by (auto simp: render_column_def typed_column_def Let_def
      split: yaml.splits option.splits if_splits)

lemma render_columns_Inl_typed:
  "render_columns U table_key st cols = Inl e \<Longrightarrow> list_all typed_column cols \<Longrightarrow>
   fst e = ValueError \<and> is_schema_message (snd e)"
proof (induction cols arbitrary: st)
  case Nil
  then show ?case by simp
next
  case (Cons col cols)
  show ?case
  proof (cases "render_column U table_key st col")
    case (Inl e')
    with Cons.prems have "e' = e" "typed_column col" by simp_all
    with Inl show ?thesis using render_column_Inl_typed by blast
  next
    case (Inr st1)
    with Cons.prems have "render_columns U table_key st1 cols = Inl e" "list_all typed_column cols"
      by simp_all
    then show ?thesis by (rule Cons.IH)
  qed
qed

lemma docstring_lines_Inl_typed: "docstring_lines U d = Inl e \<Longrightarrow> typed_description d \<Longrightarrow> False"
  using docstring_lines_typed [of d] by auto

lemma render_table_Inl_typed:
  assumes "render_table U st tbl = Inl e" and "typed_table tbl"
  shows "fst e = ValueError \<and> is_schema_message (snd e)"
proof (cases "snd tbl")
  case (YDict table_def)
  with assms(2) obtain key where k: "fst tbl = YStr key"
    and d: "typed_description (table_description_of table_def)"
    and c: "list_all typed_column (table_columns tbl)"
    by (auto simp: typed_table_def split: yaml.splits)
  from docstring_lines_typed [OF d] obtain doc where
    doc: "docstring_lines U (table_description_of table_def) = Inr doc" by blast
  show ?thesis
  proof (cases "dict_get table_def ''columns''")
    case None
    with assms(1) YDict k doc show ?thesis
      by (auto simp: render_table_def Let_def)
  next
    case (Some cv)
    show ?thesis
    proof (cases cv)
      case (YDict cols)
      with Some \<open>snd tbl = YDict table_def\<close> have tc: "table_columns tbl = cols"
        by (simp add: table_columns_def)
      from assms(1) \<open>snd tbl = YDict table_def\<close> k doc Some YDict obtain st1 where
        "render_columns U (YStr key) st1 cols = Inl e"
        by (auto simp: render_table_def Let_def split: sum.splits)
      with c tc show ?thesis using render_columns_Inl_typed by blast
    qed (use assms(1) \<open>snd tbl = YDict table_def\<close> k doc Some in
          \<open>auto simp: render_table_def Let_def\<close>)
  qed
qed (use assms(1) in \<open>auto simp: render_table_def Let_def\<close>)

lemma render_tables_Inl_typed:
  "render_tables U st tbls = Inl e \<Longrightarrow> list_all typed_table tbls \<Longrightarrow>
   fst e = ValueError \<and> is_schema_message (snd e)"
proof (induction tbls arbitrary: st)
  case Nil
  then show ?case by simp
next
  case (Cons tbl tbls)
  show ?case
  proof (cases "render_table U st tbl")
    case (Inl e')
    with Cons.prems have "e' = e" "typed_table tbl" by simp_all
    with Inl show ?thesis using render_table_Inl_typed by blast
  next
    case (Inr st1)
    with Cons.prems have "render_tables U st1 tbls = Inl e" "list_all typed_table tbls"
      by simp_all
    then show ?thesis by (rule Cons.IH)
  qed
qed

lemma generate_Inl_typed:
  assumes "generate_from_schema U set_order schema = Inl e" and "typed_schema schema"
  shows "fst e = ValueError \<and> is_schema_message (snd e)"
proof (cases "\<exists>root tables. schema = YDict root \<and> dict_get root ''tables'' = Some (YDict tables)")
  case True
  then obtain root tables where s: "schema = YDict root"
    "dict_get root ''tables'' = Some (YDict tables)" by blast
  with assms(1) have "render_tables U initial_state tables = Inl e"
    by (auto simp: generate_from_schema_def split: sum.splits)
  moreover from assms(2) s have "list_all typed_table tables"
    by (simp add: typed_schema_def schema_tables_def)
  ultimately show ?thesis by (rule render_tables_Inl_typed)
next
  case False
  with assms(1) show ?thesis
    by (auto simp: generate_from_schema_def split: yaml.splits option.splits)
qed

lemma invalid_schema_fails:
  assumes "typed_schema schema" and "\<not> valid_schema schema"
  shows "\<exists>m. generate_from_schema U set_order schema = Inl (ValueError, m) \<and> is_schema_message m"
proof (cases "generate_from_schema U set_order schema")
  case (Inl e)
  from generate_Inl_typed [OF Inl assms(1)] Inl show ?thesis
    by (cases e) auto
next
  case (Inr out)
  from generate_Inr_valid [OF Inr] assms(2) show ?thesis by simp
qed

text \<open>
  C8, as the specification states it, fails: a missing document, a document that does not
  parse and a document whose \<open>tables\<close> is a string all raise the same class of
  exception, \<^verbatim>\<open>ValueError\<close>.
\<close>

theorem error_kinds_counterexample:
  "raised_class (generate_models_code no_unicode id Map.empty (\<lambda>t. Inr YNull) ''schema.yml'')
     = Some ValueError \<and>
   raised_class (generate_models_code no_unicode id [''schema.yml'' \<mapsto> ''tables: [''] 
       (\<lambda>t. Inl ''expected the node content'') ''schema.yml'')
     = raised_class (generate_models_code no_unicode id Map.empty (\<lambda>t. Inr YNull) ''schema.yml'') \<and>
   raised_class (generate_models_code no_unicode id [''schema.yml'' \<mapsto> ''tables: none'']
       (\<lambda>t. Inr (YDict [(YStr ''tables'', YStr ''none'')])) ''schema.yml'')
     = raised_class (generate_models_code no_unicode id Map.empty (\<lambda>t. Inr YNull) ''schema.yml'')"
  by (simp add: raised_class_def generate_models_code_def generate_from_schema_def dict_get_def)

text \<open>
  C8, amended. The failures of the generator are told apart by their messages, not by
  their class, which is \<^verbatim>\<open>ValueError\<close> for all of them: a missing document raises it with
  the message of line 59, which names the path; a document that does not parse raises it
  with a message that carries the diagnostic of the parser; and every schema of the types
  of the data model that breaks a rule of the validator raises it with one of the messages
  of the validator. A failure is a result without output text.
\<close>

theorem failures_raise_ValueError:
  "(files yaml_path = None \<longrightarrow>
      generate_models_code U set_order files safe_load yaml_path =
        Inl (ValueError, File_not_found yaml_path)) \<and>
   (files yaml_path = Some text \<and> safe_load text = Inl diagnostic \<longrightarrow>
      generate_models_code U set_order files safe_load yaml_path =
        Inl (ValueError, Parse_failed_file yaml_path diagnostic) \<and>
      diagnostic \<in> set (interpolated (Parse_failed_file yaml_path diagnostic))) \<and>
   (safe_load text = Inl diagnostic \<longrightarrow>
      generate_models_code_update U set_order safe_load text =
        Inl (ValueError, Parse_failed_content diagnostic) \<and>
      diagnostic \<in> set (interpolated (Parse_failed_content diagnostic))) \<and>
   (safe_load text = Inr schema \<and> typed_schema schema \<and> \<not> valid_schema schema \<longrightarrow>
      (\<exists>m. is_schema_message m \<and>
         generate_models_code_update U set_order safe_load text = Inl (ValueError, m) \<and>
         (files yaml_path = Some text \<longrightarrow>
            generate_models_code U set_order files safe_load yaml_path = Inl (ValueError, m))))"
proof -
  have "\<exists>m. is_schema_message m \<and>
         generate_models_code_update U set_order safe_load text = Inl (ValueError, m) \<and>
         (files yaml_path = Some text \<longrightarrow>
            generate_models_code U set_order files safe_load yaml_path = Inl (ValueError, m))"
    if "safe_load text = Inr schema" "typed_schema schema" "\<not> valid_schema schema"
  proof -
    from invalid_schema_fails [OF that(2,3)] obtain m where
      "generate_from_schema U set_order schema = Inl (ValueError, m)" "is_schema_message m"
      by blast
    with that(1) show ?thesis
      by (auto simp: generate_models_code_update_def generate_models_code_def)
  qed
  then show ?thesis
    by (simp add: generate_models_code_def generate_models_code_update_def)
qed

theorem failures_raise_ValueError_witness:
  "generate_models_code no_unicode id Map.empty (\<lambda>t. Inr YNull) ''schema.yml'' =
     Inl (ValueError, File_not_found ''schema.yml'') \<and>
   generate_models_code no_unicode id [''schema.yml'' \<mapsto> ''tables: [''] (\<lambda>t. Inl ''expected the node content'')
       ''schema.yml'' =
     Inl (ValueError, Parse_failed_file ''schema.yml'' ''expected the node content'') \<and>
   generate_models_code_update no_unicode id (\<lambda>t. Inl ''expected the node content'') ''tables: ['' =
     Inl (ValueError, Parse_failed_content ''expected the node content'') \<and>
   (\<exists>m. is_schema_message m \<and>
      generate_models_code_update no_unicode id (\<lambda>t. Inr (YDict [(YStr ''tables'', YStr ''none'')]))
        ''tables: none'' = Inl (ValueError, m) \<and>
      generate_models_code no_unicode id [''schema.yml'' \<mapsto> ''tables: none'']
        (\<lambda>t. Inr (YDict [(YStr ''tables'', YStr ''none'')])) ''schema.yml'' = Inl (ValueError, m))"
proof -
  let ?bad = "YDict [(YStr ''tables'', YStr ''none'')]"
  have t: "typed_schema ?bad"
    by (simp add: typed_schema_def schema_tables_def dict_get_def)
  have v: "\<not> valid_schema ?bad"
    by (simp add: valid_schema_def dict_get_def)
  have a: "generate_models_code no_unicode id Map.empty (\<lambda>t. Inr YNull) ''schema.yml'' =
     Inl (ValueError, File_not_found ''schema.yml'')"
    using failures_raise_ValueError
      [of Map.empty "''schema.yml''" no_unicode id "\<lambda>t. Inr YNull" "''x''" "''d''" YNull]
    by simp
  have b: "generate_models_code no_unicode id [''schema.yml'' \<mapsto> ''tables: [''] (\<lambda>t. Inl ''expected the node content'')
       ''schema.yml'' =
     Inl (ValueError, Parse_failed_file ''schema.yml'' ''expected the node content'') \<and>
   generate_models_code_update no_unicode id (\<lambda>t. Inl ''expected the node content'') ''tables: ['' =
     Inl (ValueError, Parse_failed_content ''expected the node content'')"
    using failures_raise_ValueError
      [of "[''schema.yml'' \<mapsto> ''tables: ['']" "''schema.yml''" no_unicode id
          "\<lambda>t. Inl ''expected the node content''" "''tables: [''" "''expected the node content''" YNull]
    by simp
  have c: "\<exists>m. is_schema_message m \<and>
      generate_models_code_update no_unicode id (\<lambda>t. Inr ?bad) ''tables: none'' = Inl (ValueError, m) \<and>
      generate_models_code no_unicode id [''schema.yml'' \<mapsto> ''tables: none''] (\<lambda>t. Inr ?bad) ''schema.yml''
        = Inl (ValueError, m)"
    using failures_raise_ValueError
      [of "[''schema.yml'' \<mapsto> ''tables: none'']" "''schema.yml''" no_unicode id
          "\<lambda>t. Inr ?bad" "''tables: none''" "''d''" ?bad] t v
    by simp
  from a b c show ?thesis by blast
qed

subsection \<open>The import lines\<close>

lemma fold_add_absent:
  "distinct g \<Longrightarrow>
   distinct (fold (\<lambda>t general. if t \<notin> set general then general @ [t] else general) xs g) \<and>
   set (fold (\<lambda>t general. if t \<notin> set general then general @ [t] else general) xs g) = set g \<union> set xs"
  by (induction xs arbitrary: g) auto

lemma iterates_set: "iterates set_order \<Longrightarrow> set (set_order xs) = set xs"
  by (metis iterates_def mset_eq_setD)

lemma iterates_sort: "iterates set_order \<Longrightarrow> sort (set_order xs) = sort xs"
  by (simp add: iterates_def properties_for_sort)

lemma general_imports:
  assumes "iterates set_order"
  shows "distinct (general_sqlalchemy_imports set_order used) \<and>
    set (general_sqlalchemy_imports set_order used) = insert ''Column'' (set used)"
  using fold_add_absent [of "[''Column'']" "set_order used"] iterates_set [OF assms, of used]
  by (auto simp: general_sqlalchemy_imports_def)

lemma sort_general_imports:
  assumes "iterates set_order"
  shows "sort (general_sqlalchemy_imports set_order used) = sort (remdups (''Column'' # used))"
proof -
  from general_imports [OF assms, of used]
  have d: "distinct (general_sqlalchemy_imports set_order used)"
    and s: "set (general_sqlalchemy_imports set_order used) = set (''Column'' # used)" by simp_all
  have "sort (general_sqlalchemy_imports set_order used) =
      sort (remdups (general_sqlalchemy_imports set_order used))"
    using d by (simp add: distinct_remdups_id)
  also have "\<dots> = sorted_list_of_set (set (general_sqlalchemy_imports set_order used))"
    by (simp add: sorted_list_of_set_sort_remdups)
  also have "\<dots> = sort (remdups (''Column'' # used))"
    unfolding s by (simp only: sorted_list_of_set_sort_remdups)
  finally show ?thesis .
qed

lemma import_line_less:
  "''from sqlalchemy import '' @ x < ''from sqlalchemy.ext.declarative import declarative_base''"
  "''from sqlalchemy import '' @ x < ''from sqlalchemy.sql import func''"
  "''from sqlalchemy.ext.declarative import declarative_base'' < ''from sqlalchemy.sql import func''"
  by simp_all

lemma final_imports_sorted:
  assumes "iterates set_order"
  shows "final_imports set_order st =
    sorted_import_block (used_sqlalchemy_types st) (needs_sqlalchemy_func_import st)"
proof -
  let ?l = "''from sqlalchemy import '' @ join '', '' (sort (remdups (''Column'' # used_sqlalchemy_types st)))"
  have l1: "?l < ''from sqlalchemy.ext.declarative import declarative_base''"
    and l2: "?l < ''from sqlalchemy.sql import func''"
    by (rule import_line_less)+
  from l1 l2 import_line_less(3) show ?thesis
    by (simp add: final_imports_def sorted_import_block_def Let_def iterates_sort [OF assms]
        sort_general_imports [OF assms] less_le not_le insort_is_Cons)
qed

text \<open>What the loops do to the accumulators.\<close>

lemma render_columns_Inr:
  "render_columns U table_key st cols = Inr st' \<Longrightarrow>
   set (used_sqlalchemy_types st') = set (used_sqlalchemy_types st) \<union> column_tag ` set cols \<and>
   needs_sqlalchemy_func_import st' =
     (needs_sqlalchemy_func_import st \<or> list_ex column_has_func_default cols) \<and>
   set (model_code_lines st) \<subseteq> set (model_code_lines st') \<and>
   (\<forall>name col_def. (name, YDict col_def) \<in> set cols \<longrightarrow>
      (\<exists>type_str. column_line U name type_str (column_args U col_def) \<in> set (model_code_lines st')))"
proof (induction cols arbitrary: st)
  case Nil
  then show ?case by simp
next
  case (Cons col cols)
  then obtain st1 where c: "render_column U table_key st col = Inr st1"
    and r: "render_columns U table_key st1 cols = Inr st'"
    by (auto split: sum.splits)
  obtain name v where col: "col = (name, v)" by (cases col)
  from render_column_Inr [OF c [unfolded col]] obtain col_def tag where
    v: "v = YDict col_def" and t: "dict_get col_def ''type'' = Some (YStr tag)"
    and st1: "st1 = st\<lparr>used_sqlalchemy_types := set_add (used_sqlalchemy_types st) tag,
              needs_sqlalchemy_func_import :=
                (needs_sqlalchemy_func_import st \<or> sets_func_import col_def),
              model_code_lines := model_code_lines st @
                [column_line U name (column_type_str U (YStr tag) col_def tag) (column_args U col_def)]\<rparr>"
    by blast
  have tag: "column_tag col = tag"
    by (simp add: column_tag_def col v t)
  have func: "column_has_func_default col = sets_func_import col_def"
    by (simp add: column_has_func_default_def col v)
  have u1: "set (used_sqlalchemy_types st1) = insert tag (set (used_sqlalchemy_types st))"
    by (auto simp: st1 set_add_def)
  have n1: "needs_sqlalchemy_func_import st1 =
      (needs_sqlalchemy_func_import st \<or> sets_func_import col_def)"
    by (simp add: st1)
  have l1: "set (model_code_lines st1) = insert
      (column_line U name (column_type_str U (YStr tag) col_def tag) (column_args U col_def))
      (set (model_code_lines st))"
    by (simp add: st1)
  from Cons.IH [OF r] have
    u: "set (used_sqlalchemy_types st') = set (used_sqlalchemy_types st1) \<union> column_tag ` set cols"
    and n: "needs_sqlalchemy_func_import st' =
      (needs_sqlalchemy_func_import st1 \<or> list_ex column_has_func_default cols)"
    and s: "set (model_code_lines st1) \<subseteq> set (model_code_lines st')"
    and l: "\<forall>name col_def. (name, YDict col_def) \<in> set cols \<longrightarrow>
      (\<exists>type_str. column_line U name type_str (column_args U col_def) \<in> set (model_code_lines st'))"
    by blast+
  have "set (used_sqlalchemy_types st') =
      set (used_sqlalchemy_types st) \<union> column_tag ` set (col # cols)"
    using u u1 tag by auto
  moreover have "needs_sqlalchemy_func_import st' =
     (needs_sqlalchemy_func_import st \<or> list_ex column_has_func_default (col # cols))"
    using n n1 func by auto
  moreover have "set (model_code_lines st) \<subseteq> set (model_code_lines st')"
    using s l1 by auto
  moreover have "\<exists>type_str. column_line U name' type_str (column_args U col_def') \<in> set (model_code_lines st')"
    if "(name', YDict col_def') \<in> set (col # cols)" for name' col_def'
  proof (cases "(name', YDict col_def') = col")
    case True
    with col v have "name' = name" "col_def' = col_def" by simp_all
    with s l1 show ?thesis by blast
  next
    case False
    with that have "(name', YDict col_def') \<in> set cols" by simp
    with l show ?thesis by blast
  qed
  ultimately show ?case by blast
qed

lemma render_table_Inr:
  assumes "render_table U st tbl = Inr st'"
  shows "set (used_sqlalchemy_types st') =
      set (used_sqlalchemy_types st) \<union> column_tag ` set (table_columns tbl) \<and>
   needs_sqlalchemy_func_import st' =
     (needs_sqlalchemy_func_import st \<or> list_ex column_has_func_default (table_columns tbl)) \<and>
   set (model_code_lines st) \<subseteq> set (model_code_lines st') \<and>
   (\<forall>name col_def. (name, YDict col_def) \<in> set (table_columns tbl) \<longrightarrow>
      (\<exists>type_str. column_line U name type_str (column_args U col_def) \<in> set (model_code_lines st')))"
proof -
  from assms obtain table_def key doc cols st2 where
    tbl: "snd tbl = YDict table_def" "fst tbl = YStr key"
    and cols: "dict_get table_def ''columns'' = Some (YDict cols)"
    and r: "render_columns U (YStr key)
        (st\<lparr>model_code_lines := model_code_lines st @ table_head U key table_def doc\<rparr>) cols = Inr st2"
    and st': "st' = st2\<lparr>model_code_lines := model_code_lines st2 @ [[]]\<rparr>"
    by (auto simp: render_table_def Let_def split: yaml.splits sum.splits option.splits)
  have tc: "table_columns tbl = cols"
    by (simp add: table_columns_def tbl cols)
  let ?st1 = "st\<lparr>model_code_lines := model_code_lines st @ table_head U key table_def doc\<rparr>"
  from render_columns_Inr [OF r] have
    u: "set (used_sqlalchemy_types st2) = set (used_sqlalchemy_types ?st1) \<union> column_tag ` set cols"
    and n: "needs_sqlalchemy_func_import st2 =
      (needs_sqlalchemy_func_import ?st1 \<or> list_ex column_has_func_default cols)"
    and s: "set (model_code_lines ?st1) \<subseteq> set (model_code_lines st2)"
    and l: "\<forall>name col_def. (name, YDict col_def) \<in> set cols \<longrightarrow>
      (\<exists>type_str. column_line U name type_str (column_args U col_def) \<in> set (model_code_lines st2))"
    by blast+
  have "set (used_sqlalchemy_types st') =
      set (used_sqlalchemy_types st) \<union> column_tag ` set (table_columns tbl)"
    using u by (simp add: tc st')
  moreover have "needs_sqlalchemy_func_import st' =
     (needs_sqlalchemy_func_import st \<or> list_ex column_has_func_default (table_columns tbl))"
    using n by (simp add: tc st')
  moreover have "set (model_code_lines st) \<subseteq> set (model_code_lines st')"
    using s by (auto simp: st')
  moreover have "\<exists>type_str. column_line U name type_str (column_args U col_def) \<in> set (model_code_lines st')"
    if "(name, YDict col_def) \<in> set (table_columns tbl)" for name col_def
  proof -
    from that l obtain type_str where
      "column_line U name type_str (column_args U col_def) \<in> set (model_code_lines st2)"
      unfolding tc by blast
    then have "column_line U name type_str (column_args U col_def) \<in> set (model_code_lines st')"
      by (simp add: st')
    then show ?thesis ..
  qed
  ultimately show ?thesis by blast
qed

lemma render_tables_Inr:
  "render_tables U st tbls = Inr st' \<Longrightarrow>
   set (used_sqlalchemy_types st') =
      set (used_sqlalchemy_types st) \<union> column_tag ` set (concat (map table_columns tbls)) \<and>
   needs_sqlalchemy_func_import st' =
     (needs_sqlalchemy_func_import st \<or>
      list_ex column_has_func_default (concat (map table_columns tbls))) \<and>
   set (model_code_lines st) \<subseteq> set (model_code_lines st') \<and>
   (\<forall>name col_def. (name, YDict col_def) \<in> set (concat (map table_columns tbls)) \<longrightarrow>
      (\<exists>type_str. column_line U name type_str (column_args U col_def) \<in> set (model_code_lines st')))"
proof (induction tbls arbitrary: st)
  case Nil
  then show ?case by simp
next
  case (Cons tbl tbls)
  then obtain st1 where t: "render_table U st tbl = Inr st1"
    and r: "render_tables U st1 tbls = Inr st'"
    by (auto split: sum.splits)
  note a = render_table_Inr [OF t] and b = Cons.IH [OF r]
  have "set (used_sqlalchemy_types st') =
      set (used_sqlalchemy_types st) \<union> column_tag ` set (concat (map table_columns (tbl # tbls)))"
    using a b by auto
  moreover have "needs_sqlalchemy_func_import st' =
     (needs_sqlalchemy_func_import st \<or>
      list_ex column_has_func_default (concat (map table_columns (tbl # tbls))))"
    using a b by (auto simp: list_ex_iff)
  moreover have "set (model_code_lines st) \<subseteq> set (model_code_lines st')"
    using a b by blast
  moreover have "\<exists>type_str. column_line U name type_str (column_args U col_def) \<in> set (model_code_lines st')"
    if "(name, YDict col_def) \<in> set (concat (map table_columns (tbl # tbls)))" for name col_def
  proof (cases "(name, YDict col_def) \<in> set (table_columns tbl)")
    case True
    with a b show ?thesis by blast
  next
    case False
    with that have "(name, YDict col_def) \<in> set (concat (map table_columns tbls))" by auto
    with b show ?thesis by blast
  qed
  ultimately show ?case by blast
qed

text \<open>An accepted schema: the state after the loop, and the text assembled from it.\<close>

lemma generate_Inr:
  assumes "generate_from_schema U set_order schema = Inr out"
  shows "\<exists>st. render_tables U initial_state (schema_tables schema) = Inr st \<and>
     out = full_code (final_imports set_order st) (model_code_lines st) \<and>
     set (used_sqlalchemy_types st) = column_tag ` set (schema_columns schema) \<and>
     needs_sqlalchemy_func_import st = uses_func schema \<and>
     (\<forall>name col_def. (name, YDict col_def) \<in> set (schema_columns schema) \<longrightarrow>
        (\<exists>type_str. column_line U name type_str (column_args U col_def) \<in> set (model_code_lines st)))"
proof -
  from assms obtain root tables st where s: "schema = YDict root"
    "dict_get root ''tables'' = Some (YDict tables)"
    and r: "render_tables U initial_state tables = Inr st"
    and out: "out = full_code (final_imports set_order st) (model_code_lines st)"
    by (auto simp: generate_from_schema_def split: yaml.splits option.splits sum.splits)
  have t: "schema_tables schema = tables"
    by (simp add: schema_tables_def s)
  from render_tables_Inr [OF r] r out show ?thesis
    unfolding t schema_columns_def uses_func_def
    by (simp add: initial_state_def)
qed

lemma sort_remdups_cong: "set xs = set ys \<Longrightarrow> sort (remdups xs) = sort (remdups ys)"
  by (metis sorted_list_of_set_sort_remdups)

lemma sorted_import_block_cong:
  "set tags = set tags' \<Longrightarrow> sorted_import_block tags f = sorted_import_block tags' f"
  using sort_remdups_cong [of "''Column'' # tags" "''Column'' # tags'"]
  by (simp add: sorted_import_block_def)

lemma sorted_import_block_sorted:
  "sorted (sorted_import_block tags f) \<and> distinct (sorted_import_block tags f)"
  using import_line_less(1,2) [of "join '', '' (sort (remdups (''Column'' # tags)))"]
    import_line_less(3)
  by (auto simp: sorted_import_block_def less_le)


lemmas generate_defs =
  generate_from_schema_def final_imports_def general_sqlalchemy_imports_def full_code_def

lemmas schema_defs =
  schema_columns_def schema_tables_def table_columns_def column_tag_def uses_func_def
  column_has_func_default_def

subsection \<open>Determinism\<close>



subsection \<open>The text of an accepted schema\<close>

text \<open>The import block and the lines of an accepted schema.\<close>

lemma generate_text:
  assumes "generate_from_schema U set_order schema = Inr out" and "iterates set_order"
  shows "\<exists>st. render_tables U initial_state (schema_tables schema) = Inr st \<and>
     out = full_code
       (sorted_import_block (map column_tag (schema_columns schema)) (uses_func schema))
       (model_code_lines st) \<and>
     (\<forall>name col_def. (name, YDict col_def) \<in> set (schema_columns schema) \<longrightarrow>
        (\<exists>type_str. spec_column_line (py_str U name) type_str (spec_column_args U col_def)
           \<in> set (model_code_lines st)))"
proof -
  from generate_Inr [OF assms(1)] obtain st where
    r: "render_tables U initial_state (schema_tables schema) = Inr st"
    and out: "out = full_code (final_imports set_order st) (model_code_lines st)"
    and u: "set (used_sqlalchemy_types st) = column_tag ` set (schema_columns schema)"
    and n: "needs_sqlalchemy_func_import st = uses_func schema"
    and l: "\<forall>name col_def. (name, YDict col_def) \<in> set (schema_columns schema) \<longrightarrow>
        (\<exists>type_str. column_line U name type_str (column_args U col_def) \<in> set (model_code_lines st))"
    by blast
  from u have "set (used_sqlalchemy_types st) = set (map column_tag (schema_columns schema))"
    by simp
  from sorted_import_block_cong [OF this]
  have f: "final_imports set_order st =
       sorted_import_block (map column_tag (schema_columns schema)) (uses_func schema)"
    by (simp add: final_imports_sorted [OF assms(2)] n)
  have "out = full_code
       (sorted_import_block (map column_tag (schema_columns schema)) (uses_func schema))
       (model_code_lines st)"
    unfolding out f ..
  with r l show ?thesis
    by (auto simp: column_line_spec)
qed

subsection \<open>The import block of an accepted schema\<close>

text \<open>
  C3, as the specification states it, fails: for a table with a \<open>Boolean\<close> column and a
  \<open>DateTime\<close> column whose default is \<open>func.now()\<close>, the first import line names
  \<open>Boolean\<close> before the base helper \<open>Column\<close>, and the import of the function
  namespace is the last line of the block, after the import of the base class factory.
\<close>

theorem import_block_counterexample:
  "generate_from_schema no_unicode id
     (YDict [(YStr ''tables'', YDict [(YStr ''event'', YDict [(YStr ''columns'',
        YDict [(YStr ''active'', YDict [(YStr ''type'', YStr ''Boolean'')]),
               (YStr ''created_at'', YDict [(YStr ''type'', YStr ''DateTime''),
                                           (YStr ''default'', YStr ''func.now()'')])])])])])
   = Inr (join [CHR 0x0A]
       ([''from sqlalchemy import Boolean, Column, DateTime'',
         ''from sqlalchemy.ext.declarative import declarative_base'',
         ''from sqlalchemy.sql import func''] @
        [[],
         ''Base = declarative_base()'',
         [],
         ''class Event(Base):'',
         ''    __tablename__ = '' @ [CHR 0x27] @ ''event'' @ [CHR 0x27],
         [],
         ''    active = Column(Boolean)'',
         ''    created_at = Column(DateTime, server_default=func.now())'',
         []])) \<and>
   spec_import_block [''Boolean'', ''DateTime''] True =
       [''from sqlalchemy import Column, Boolean, DateTime'',
        ''from sqlalchemy.sql import func'',
        ''from sqlalchemy.ext.declarative import declarative_base''] \<and>
   [''from sqlalchemy import Boolean, Column, DateTime'',
    ''from sqlalchemy.ext.declarative import declarative_base'',
    ''from sqlalchemy.sql import func''] \<noteq> spec_import_block [''Boolean'', ''DateTime''] True"
  by (simp add: generate_defs table_defs column_defs string_defs spec_import_block_def)

text \<open>
  C3, amended. The text generated for an accepted schema begins with the import block,
  which is sorted as a whole and has no line twice: first the import from
  \<open>sqlalchemy\<close> of the base helper together with every distinct type token used, all
  of them in one alphabetical list (so \<open>Boolean\<close> stands before \<open>Column\<close>); then the
  import of the base class factory; then, if and only if the default of some column has
  the reserved prefix, the import of the function namespace. After the block come an
  empty line, the declaration of the base class, an empty line and the lines of the
  tables.
\<close>

theorem import_block:
  assumes "generate_from_schema U set_order schema = Inr out" and "iterates set_order"
  shows "\<exists>st. render_tables U initial_state (schema_tables schema) = Inr st \<and>
     out =
       join [CHR 0x0A]
         (sorted_import_block (map column_tag (schema_columns schema)) (uses_func schema)) @
       [CHR 0x0A, CHR 0x0A] @ ''Base = declarative_base()'' @ [CHR 0x0A, CHR 0x0A] @
       join [CHR 0x0A] (model_code_lines st) \<and>
     sorted (sorted_import_block (map column_tag (schema_columns schema)) (uses_func schema)) \<and>
     distinct (sorted_import_block (map column_tag (schema_columns schema)) (uses_func schema))"
proof -
  from generate_text [OF assms] obtain st where
    r: "render_tables U initial_state (schema_tables schema) = Inr st"
    and o: "out = full_code
       (sorted_import_block (map column_tag (schema_columns schema)) (uses_func schema))
       (model_code_lines st)"
    by blast
  have "out =
       join [CHR 0x0A]
         (sorted_import_block (map column_tag (schema_columns schema)) (uses_func schema)) @
       [CHR 0x0A, CHR 0x0A] @ ''Base = declarative_base()'' @ [CHR 0x0A, CHR 0x0A] @
       join [CHR 0x0A] (model_code_lines st)"
    unfolding o by (simp add: full_code_def)
  with r sorted_import_block_sorted show ?thesis by blast
qed

theorem import_block_witness:
  "generate_from_schema no_unicode rev
     (YDict [(YStr ''tables'', YDict [(YStr ''event'', YDict [(YStr ''columns'',
        YDict [(YStr ''active'', YDict [(YStr ''type'', YStr ''Boolean'')]),
               (YStr ''created_at'', YDict [(YStr ''type'', YStr ''DateTime''),
                                           (YStr ''default'', YStr ''func.now()'')])])])])])
   = Inr (join [CHR 0x0A]
       [''from sqlalchemy import Boolean, Column, DateTime'',
        ''from sqlalchemy.ext.declarative import declarative_base'',
        ''from sqlalchemy.sql import func'',
        [],
        ''Base = declarative_base()'',
        [],
        ''class Event(Base):'',
        ''    __tablename__ = '' @ [CHR 0x27] @ ''event'' @ [CHR 0x27],
        [],
        ''    active = Column(Boolean)'',
        ''    created_at = Column(DateTime, server_default=func.now())'',
        []])"
proof -
  let ?tables = "[(YStr ''event'', YDict [(YStr ''columns'',
        YDict [(YStr ''active'', YDict [(YStr ''type'', YStr ''Boolean'')]),
               (YStr ''created_at'', YDict [(YStr ''type'', YStr ''DateTime''),
                                           (YStr ''default'', YStr ''func.now()'')])])])]"
  let ?schema = "YDict [(YStr ''tables'', YDict ?tables)]"
  have r: "iterates rev" by (simp add: iterates_def)
  obtain out where g: "generate_from_schema no_unicode rev ?schema = Inr out"
    by (simp add: generate_from_schema_def table_defs column_defs string_defs)
  have b: "sorted_import_block (map column_tag (schema_columns ?schema)) (uses_func ?schema) =
      [''from sqlalchemy import Boolean, Column, DateTime'',
       ''from sqlalchemy.ext.declarative import declarative_base'',
       ''from sqlalchemy.sql import func'']"
    by (simp add: sorted_import_block_def schema_defs sets_func_import_def is_func_default_def
        dict_get_def)
  have t: "schema_tables ?schema = ?tables"
    by (simp add: schema_tables_def dict_get_def)
  have l: "render_tables no_unicode initial_state ?tables = Inr st \<Longrightarrow>
      model_code_lines st =
        [''class Event(Base):'',
         ''    __tablename__ = '' @ [CHR 0x27] @ ''event'' @ [CHR 0x27],
         [],
         ''    active = Column(Boolean)'',
         ''    created_at = Column(DateTime, server_default=func.now())'',
         []]" for st
    by (auto simp: table_defs column_defs string_defs)
  from import_block [OF g r] obtain st where
    s: "render_tables no_unicode initial_state ?tables = Inr st"
    and o: "out = join [CHR 0x0A]
        [''from sqlalchemy import Boolean, Column, DateTime'',
         ''from sqlalchemy.ext.declarative import declarative_base'',
         ''from sqlalchemy.sql import func''] @
       [CHR 0x0A, CHR 0x0A] @ ''Base = declarative_base()'' @ [CHR 0x0A, CHR 0x0A] @
       join [CHR 0x0A] (model_code_lines st)"
    unfolding b t by blast
  show ?thesis
    unfolding g o l [OF s] by simp
qed

subsection \<open>Minimal imports\<close>

text \<open>
  C5. For an accepted schema whose columns use the tags \<open>Integer\<close> and \<open>String\<close> and
  no other, and none of whose defaults has the reserved prefix, the import block is the
  import of \<open>Column\<close>, \<open>Integer\<close> and \<open>String\<close> from \<open>sqlalchemy\<close> and the import of
  the base class factory, and nothing else: the generated text is these two lines, an
  empty line, the declaration of the base class, an empty line and the lines of the
  tables.
\<close>

theorem import_minimality:
  assumes "generate_from_schema U set_order schema = Inr out" and "iterates set_order"
    and "column_tag ` set (schema_columns schema) = {''Integer'', ''String''}"
    and "\<not> uses_func schema"
  shows "\<exists>st. render_tables U initial_state (schema_tables schema) = Inr st \<and>
     out =
       ''from sqlalchemy import Column, Integer, String'' @ [CHR 0x0A] @
       ''from sqlalchemy.ext.declarative import declarative_base'' @ [CHR 0x0A, CHR 0x0A] @
       ''Base = declarative_base()'' @ [CHR 0x0A, CHR 0x0A] @
       join [CHR 0x0A] (model_code_lines st)"
proof -
  from assms(3) have "set (map column_tag (schema_columns schema)) = set [''Integer'', ''String'']"
    by simp
  from sorted_import_block_cong [OF this, of "uses_func schema"] assms(4)
  have b: "sorted_import_block (map column_tag (schema_columns schema)) (uses_func schema) =
      [''from sqlalchemy import Column, Integer, String'',
       ''from sqlalchemy.ext.declarative import declarative_base'']"
    by (simp add: sorted_import_block_def)
  from generate_text [OF assms(1,2)] obtain st where
    r: "render_tables U initial_state (schema_tables schema) = Inr st"
    and o: "out = full_code
       (sorted_import_block (map column_tag (schema_columns schema)) (uses_func schema))
       (model_code_lines st)"
    by blast
  from o have "out =
       ''from sqlalchemy import Column, Integer, String'' @ [CHR 0x0A] @
       ''from sqlalchemy.ext.declarative import declarative_base'' @ [CHR 0x0A, CHR 0x0A] @
       ''Base = declarative_base()'' @ [CHR 0x0A, CHR 0x0A] @
       join [CHR 0x0A] (model_code_lines st)"
    unfolding b by (simp add: full_code_def)
  with r show ?thesis by blast
qed

theorem import_minimality_witness:
  "generate_from_schema no_unicode rev
     (YDict [(YStr ''tables'', YDict [(YStr ''user'', YDict [(YStr ''columns'',
        YDict [(YStr ''name'', YDict [(YStr ''type'', YStr ''String''),
                                     (YStr ''length'', YInt 100)]),
               (YStr ''age'', YDict [(YStr ''type'', YStr ''Integer''),
                                    (YStr ''default'', YInt 0)])])])])])
   = Inr (join [CHR 0x0A]
       [''from sqlalchemy import Column, Integer, String'',
        ''from sqlalchemy.ext.declarative import declarative_base'',
        [],
        ''Base = declarative_base()'',
        [],
        ''class User(Base):'',
        ''    __tablename__ = '' @ [CHR 0x27] @ ''user'' @ [CHR 0x27],
        [],
        ''    name = Column(String(length=100))'',
        ''    age = Column(Integer, default=0)'',
        []])"
proof -
  let ?tables = "[(YStr ''user'', YDict [(YStr ''columns'',
        YDict [(YStr ''name'', YDict [(YStr ''type'', YStr ''String''),
                                     (YStr ''length'', YInt 100)]),
               (YStr ''age'', YDict [(YStr ''type'', YStr ''Integer''),
                                    (YStr ''default'', YInt 0)])])])]"
  let ?schema = "YDict [(YStr ''tables'', YDict ?tables)]"
  have r: "iterates rev" by (simp add: iterates_def)
  obtain out where g: "generate_from_schema no_unicode rev ?schema = Inr out"
    by (simp add: generate_from_schema_def table_defs column_defs string_defs)
  have t0: "map column_tag (schema_columns ?schema) = [''String'', ''Integer'']"
    by (simp add: schema_defs dict_get_def)
  have "{''String'', ''Integer''} = {''Integer'', ''String''}"
    by (rule insert_commute)
  then have t: "column_tag ` set (schema_columns ?schema) = {''Integer'', ''String''}"
    unfolding set_map [symmetric] t0 by (simp only: list.set)
  have f: "\<not> uses_func ?schema"
    by (simp add: schema_defs sets_func_import_def is_func_default_def dict_get_def)
  have ts: "schema_tables ?schema = ?tables"
    by (simp add: schema_tables_def dict_get_def)
  have l: "render_tables no_unicode initial_state ?tables = Inr st \<Longrightarrow>
      model_code_lines st =
        [''class User(Base):'',
         ''    __tablename__ = '' @ [CHR 0x27] @ ''user'' @ [CHR 0x27],
         [],
         ''    name = Column(String(length=100))'',
         ''    age = Column(Integer, default=0)'',
         []]" for st
    by (auto simp: table_defs column_defs string_defs)
  from import_minimality [OF g r t f] obtain st where
    s: "render_tables no_unicode initial_state ?tables = Inr st"
    and o: "out =
       ''from sqlalchemy import Column, Integer, String'' @ [CHR 0x0A] @
       ''from sqlalchemy.ext.declarative import declarative_base'' @ [CHR 0x0A, CHR 0x0A] @
       ''Base = declarative_base()'' @ [CHR 0x0A, CHR 0x0A] @
       join [CHR 0x0A] (model_code_lines st)"
    unfolding ts by blast
  show ?thesis
    unfolding g o l [OF s] by simp
qed

subsection \<open>The two kinds of default\<close>

lemma func_line_in_block:
  "''from sqlalchemy.sql import func'' \<in> set (sorted_import_block tags f) \<longleftrightarrow> f"
  using import_line_less(2) [of "join '', '' (sort (remdups (''Column'' # tags)))"]
  by (auto simp: sorted_import_block_def)

lemma spec_default_arg_not_server:
  "\<not> is_func_default v \<Longrightarrow> \<not> startswith (spec_default_arg U v) ''server_default''"
  by (cases v) (simp_all add: spec_default_arg_def is_func_default_def)

text \<open>
  C4, as the specification states it, fails: a default that is a date is not rendered as
  a literal. For the default \<^verbatim>\<open>2024-01-01\<close>, which the parser reads as a date, the
  argument is the text of \<^verbatim>\<open>str\<close>, \<open>default=2024-01-01\<close>, while the literal of the
  value is the text of \<^verbatim>\<open>repr\<close>, \<open>datetime.date(2024, 1, 1)\<close>.
\<close>

theorem default_literal_counterexample:
  "generate_from_schema no_unicode id
     (YDict [(YStr ''tables'', YDict [(YStr ''event'', YDict [(YStr ''columns'',
        YDict [(YStr ''day'', YDict [(YStr ''type'', YStr ''DateTime''),
           (YStr ''default'',
            YOther True ''2024-01-01'' ''datetime.date(2024, 1, 1)'')])])])])])
   = Inr (join [CHR 0x0A]
       [''from sqlalchemy import Column, DateTime'',
        ''from sqlalchemy.ext.declarative import declarative_base'',
        [],
        ''Base = declarative_base()'',
        [],
        ''class Event(Base):'',
        ''    __tablename__ = '' @ [CHR 0x27] @ ''event'' @ [CHR 0x27],
        [],
        ''    day = Column(DateTime, default=2024-01-01)'',
        []]) \<and>
   ''default=2024-01-01'' \<noteq>
     ''default='' @ py_repr no_unicode (YOther True ''2024-01-01'' ''datetime.date(2024, 1, 1)'')"
  by (simp add: generate_defs table_defs column_defs string_defs)

text \<open>
  C4, amended. In an accepted schema, take a column with a \<open>default\<close>. Its declaration
  line is among the generated lines. If the default is a string with the prefix
  \<open>func.\<close>, the line carries the argument \<open>server_default\<close> with the string as it
  is, and the import of the function namespace is in the import block of the text.
  Otherwise the line carries the argument \<open>default\<close> and no \<open>server_default\<close>: a
  string is rendered as a quoted literal, every other value by the text of \<^verbatim>\<open>str\<close>,
  which is the literal of a null, a boolean or an integer (\<open>default=0\<close>) and is not
  the literal of a date. The import of the function namespace is in the block exactly
  when the default of some column of the schema has the prefix, so a column without it
  never brings the import in.
\<close>

theorem default_branching:
  assumes "generate_from_schema U set_order schema = Inr out" and "iterates set_order"
    and "(name, YDict col_def) \<in> set (schema_columns schema)"
    and "dict_get col_def ''default'' = Some v"
  shows "\<exists>st type_str. render_tables U initial_state (schema_tables schema) = Inr st \<and>
     out =
       join [CHR 0x0A]
         (sorted_import_block (map column_tag (schema_columns schema)) (uses_func schema)) @
       [CHR 0x0A, CHR 0x0A] @ ''Base = declarative_base()'' @ [CHR 0x0A, CHR 0x0A] @
       join [CHR 0x0A] (model_code_lines st) \<and>
     spec_column_line (py_str U name) type_str (spec_column_args U col_def)
       \<in> set (model_code_lines st) \<and>
     (\<forall>s. v = YStr s \<and> startswith s ''func.'' \<longrightarrow>
        ''server_default='' @ s \<in> set (spec_column_args U col_def) \<and>
        ''from sqlalchemy.sql import func'' \<in> set
          (sorted_import_block (map column_tag (schema_columns schema)) (uses_func schema))) \<and>
     (\<forall>s. v = YStr s \<and> \<not> startswith s ''func.'' \<longrightarrow>
        ''default='' @ repr_str U s \<in> set (spec_column_args U col_def)) \<and>
     ((\<forall>s. v \<noteq> YStr s) \<longrightarrow>
        ''default='' @ py_str U v \<in> set (spec_column_args U col_def)) \<and>
     (v = YNull \<or> (\<exists>b. v = YBool b) \<or> (\<exists>i. v = YInt i) \<longrightarrow> py_str U v = py_repr U v) \<and>
     (\<not> is_func_default v \<longrightarrow>
        (\<forall>a \<in> set (spec_column_args U col_def). \<not> startswith a ''server_default'')) \<and>
     (''from sqlalchemy.sql import func'' \<in> set
        (sorted_import_block (map column_tag (schema_columns schema)) (uses_func schema))
      \<longleftrightarrow> uses_func schema)"
proof -
  let ?block = "sorted_import_block (map column_tag (schema_columns schema)) (uses_func schema)"
  from generate_text [OF assms(1,2)] assms(3) obtain st type_str where
    r: "render_tables U initial_state (schema_tables schema) = Inr st"
    and out0: "out = full_code ?block (model_code_lines st)"
    and l: "spec_column_line (py_str U name) type_str (spec_column_args U col_def)
       \<in> set (model_code_lines st)"
    by blast
  have out: "out = join [CHR 0x0A] ?block @
       [CHR 0x0A, CHR 0x0A] @ ''Base = declarative_base()'' @ [CHR 0x0A, CHR 0x0A] @
       join [CHR 0x0A] (model_code_lines st)"
    unfolding out0 by (simp add: full_code_def)
  have f: "''from sqlalchemy.sql import func'' \<in> set ?block \<longleftrightarrow> uses_func schema"
    by (rule func_line_in_block)
  have m: "spec_default_arg U v \<in> set (spec_column_args U col_def)"
    using assms(4) by (simp add: spec_column_args_def)
  have u: "uses_func schema" if "v = YStr s" "startswith s ''func.''" for s
    using that assms(3,4)
    by (auto simp: uses_func_def list_ex_iff column_has_func_default_def sets_func_import_def
        is_func_default_def intro!: bexI [of _ "(name, YDict col_def)"])
  have a1: "''server_default='' @ s \<in> set (spec_column_args U col_def)"
    if "v = YStr s" "startswith s ''func.''" for s
    using that m by (simp add: spec_default_arg_def)
  have a2: "''default='' @ repr_str U s \<in> set (spec_column_args U col_def)"
    if "v = YStr s" "\<not> startswith s ''func.''" for s
    using that m by (simp add: spec_default_arg_def spec_literal_def)
  have a3: "''default='' @ py_str U v \<in> set (spec_column_args U col_def)" if "\<forall>s. v \<noteq> YStr s"
    using that m by (cases v) (simp_all add: spec_default_arg_def spec_literal_def)
  have a4: "py_str U v = py_repr U v" if "v = YNull \<or> (\<exists>b. v = YBool b) \<or> (\<exists>i. v = YInt i)"
    using that by (auto simp: py_str_def)
  have a5: "\<not> startswith a ''server_default''"
    if "\<not> is_func_default v" "a \<in> set (spec_column_args U col_def)" for a
    using that assms(4) spec_default_arg_not_server [of v U]
    by (auto simp: spec_column_args_def opt_arg_def split: option.splits if_splits)
  from r out l f u a1 a2 a3 a4 a5 show ?thesis by blast
qed

theorem default_branching_witness:
  "generate_from_schema no_unicode id
     (YDict [(YStr ''tables'', YDict [(YStr ''item'', YDict [(YStr ''columns'',
        YDict [(YStr ''price'', YDict [(YStr ''type'', YStr ''Integer''),
                                      (YStr ''default'', YInt 0)]),
               (YStr ''status'', YDict [(YStr ''type'', YStr ''String''),
                                       (YStr ''default'', YStr ''new'')]),
               (YStr ''created_at'', YDict [(YStr ''type'', YStr ''DateTime''),
                                           (YStr ''default'', YStr ''func.now()'')])])])])])
   = Inr (join [CHR 0x0A]
       [''from sqlalchemy import Column, DateTime, Integer, String'',
        ''from sqlalchemy.ext.declarative import declarative_base'',
        ''from sqlalchemy.sql import func'',
        [],
        ''Base = declarative_base()'',
        [],
        ''class Item(Base):'',
        ''    __tablename__ = '' @ [CHR 0x27] @ ''item'' @ [CHR 0x27],
        [],
        ''    price = Column(Integer, default=0)'',
        ''    status = Column(String, default='' @ [CHR 0x27] @ ''new'' @ [CHR 0x27] @ '')'',
        ''    created_at = Column(DateTime, server_default=func.now())'',
        []]) \<and>
   ''server_default=func.now()'' \<in> set (spec_column_args no_unicode
      [(YStr ''type'', YStr ''DateTime''), (YStr ''default'', YStr ''func.now()'')]) \<and>
   ''default='' @ [CHR 0x27] @ ''new'' @ [CHR 0x27] \<in> set (spec_column_args no_unicode
      [(YStr ''type'', YStr ''String''), (YStr ''default'', YStr ''new'')]) \<and>
   ''default=0'' \<in> set (spec_column_args no_unicode
      [(YStr ''type'', YStr ''Integer''), (YStr ''default'', YInt 0)])"
proof -
  let ?c1 = "[(YStr ''type'', YStr ''Integer''), (YStr ''default'', YInt 0)]"
  let ?c2 = "[(YStr ''type'', YStr ''String''), (YStr ''default'', YStr ''new'')]"
  let ?c3 = "[(YStr ''type'', YStr ''DateTime''), (YStr ''default'', YStr ''func.now()'')]"
  let ?tables = "[(YStr ''item'', YDict [(YStr ''columns'',
        YDict [(YStr ''price'', YDict ?c1), (YStr ''status'', YDict ?c2),
               (YStr ''created_at'', YDict ?c3)])])]"
  let ?schema = "YDict [(YStr ''tables'', YDict ?tables)]"
  have i: "iterates id" by (simp add: iterates_def)
  obtain out where g: "generate_from_schema no_unicode id ?schema = Inr out"
    by (simp add: generate_from_schema_def table_defs column_defs string_defs)
  have m: "(YStr ''price'', YDict ?c1) \<in> set (schema_columns ?schema)"
    "(YStr ''status'', YDict ?c2) \<in> set (schema_columns ?schema)"
    "(YStr ''created_at'', YDict ?c3) \<in> set (schema_columns ?schema)"
    by (simp_all add: schema_defs dict_get_def)
  have d: "dict_get ?c1 ''default'' = Some (YInt 0)"
    "dict_get ?c2 ''default'' = Some (YStr ''new'')"
    "dict_get ?c3 ''default'' = Some (YStr ''func.now()'')"
    by (simp_all add: dict_get_def)
  have b: "sorted_import_block (map column_tag (schema_columns ?schema)) (uses_func ?schema) =
      [''from sqlalchemy import Column, DateTime, Integer, String'',
       ''from sqlalchemy.ext.declarative import declarative_base'',
       ''from sqlalchemy.sql import func'']"
    by (simp add: sorted_import_block_def schema_defs sets_func_import_def is_func_default_def
        dict_get_def)
  have ts: "schema_tables ?schema = ?tables"
    by (simp add: schema_tables_def dict_get_def)
  have l: "render_tables no_unicode initial_state ?tables = Inr st \<Longrightarrow>
      model_code_lines st =
        [''class Item(Base):'',
         ''    __tablename__ = '' @ [CHR 0x27] @ ''item'' @ [CHR 0x27],
         [],
         ''    price = Column(Integer, default=0)'',
         ''    status = Column(String, default='' @ [CHR 0x27] @ ''new'' @ [CHR 0x27] @ '')'',
         ''    created_at = Column(DateTime, server_default=func.now())'',
         []]" for st
    by (auto simp: table_defs column_defs string_defs)
  note w1 = default_branching [OF g i m(1) d(1)]
  note w2 = default_branching [OF g i m(2) d(2)]
  note w3 = default_branching [OF g i m(3) d(3)]
  from w3 obtain st where
    s: "render_tables no_unicode initial_state ?tables = Inr st"
    and o: "out = join [CHR 0x0A]
        [''from sqlalchemy import Column, DateTime, Integer, String'',
         ''from sqlalchemy.ext.declarative import declarative_base'',
         ''from sqlalchemy.sql import func''] @
       [CHR 0x0A, CHR 0x0A] @ ''Base = declarative_base()'' @ [CHR 0x0A, CHR 0x0A] @
       join [CHR 0x0A] (model_code_lines st)"
    unfolding b ts by blast
  have t: "generate_from_schema no_unicode id ?schema = Inr (join [CHR 0x0A]
       [''from sqlalchemy import Column, DateTime, Integer, String'',
        ''from sqlalchemy.ext.declarative import declarative_base'',
        ''from sqlalchemy.sql import func'',
        [],
        ''Base = declarative_base()'',
        [],
        ''class Item(Base):'',
        ''    __tablename__ = '' @ [CHR 0x27] @ ''item'' @ [CHR 0x27],
        [],
        ''    price = Column(Integer, default=0)'',
        ''    status = Column(String, default='' @ [CHR 0x27] @ ''new'' @ [CHR 0x27] @ '')'',
        ''    created_at = Column(DateTime, server_default=func.now())'',
        []])"
    unfolding g o l [OF s] by simp
  from w3 have a3: "''server_default=func.now()'' \<in> set (spec_column_args no_unicode ?c3)"
    by auto
  from w2 have a2: "''default='' @ repr_str no_unicode ''new''
      \<in> set (spec_column_args no_unicode ?c2)"
    by auto
  then have a2': "''default='' @ [CHR 0x27] @ ''new'' @ [CHR 0x27]
      \<in> set (spec_column_args no_unicode ?c2)"
    by (simp add: string_defs)
  from w1 have "''default='' @ py_str no_unicode (YInt 0) \<in> set (spec_column_args no_unicode ?c1)"
    by auto
  then have a1: "''default=0'' \<in> set (spec_column_args no_unicode ?c1)"
    by (simp add: string_defs)
  from t a1 a2' a3 show ?thesis by blast
qed

subsection \<open>A table without columns\<close>

text \<open>
  C10, as the specification states it, fails: a table whose \<open>columns\<close> is the empty
  mapping and whose description is the number 5 is not rendered, because
  \<^verbatim>\<open>strip\<close> is called on the number; the same holds for a table whose key is a number.
\<close>

theorem empty_columns_counterexample:
  "generate_from_schema no_unicode id
     (YDict [(YStr ''tables'', YDict [(YStr ''audit_log'',
        YDict [(YStr ''description'', YInt 5), (YStr ''columns'', YDict [])])])])
   = Inl (AttributeError, Runtime_message) \<and>
   generate_from_schema no_unicode id
     (YDict [(YStr ''tables'', YDict [(YInt 7, YDict [(YStr ''columns'', YDict [])])])])
   = Inl (AttributeError, Runtime_message)"
  by (simp add: generate_from_schema_def table_defs dict_get_def)

text \<open>
  C10, amended. A table with a string key, whose description is a string (or absent, or a
  false value) and whose \<open>columns\<close> is the empty mapping, is rendered without error. Its
  block is the class header, the documentation block when there is a description, the
  table name binding and the blank line after it, no declaration line, and the blank line
  that closes every block. A schema made of this one table is accepted, and its text
  imports the base helper and the base class factory only.
\<close>

theorem empty_columns_table:
  assumes "dict_get table_def ''columns'' = Some (YDict [])"
    and "typed_description (table_description_of table_def)"
  shows "render_table U st (YStr key, YDict table_def) =
       Inr (st\<lparr>model_code_lines := model_code_lines st @
         [''class '' @ py_str U (class_name_of U key table_def) @ ''(Base):''] @
         spec_docstring U (table_description_of table_def) @
         [''    __tablename__ = '' @ [CHR 0x27] @ py_str U (db_table_name_of U key table_def) @
            [CHR 0x27],
          [], []]\<rparr>) \<and>
    (iterates set_order \<longrightarrow>
       generate_from_schema U set_order
         (YDict [(YStr ''tables'', YDict [(YStr key, YDict table_def)])]) =
       Inr (''from sqlalchemy import Column'' @ [CHR 0x0A] @
            ''from sqlalchemy.ext.declarative import declarative_base'' @ [CHR 0x0A, CHR 0x0A] @
            ''Base = declarative_base()'' @ [CHR 0x0A, CHR 0x0A] @
            join [CHR 0x0A]
              ([''class '' @ py_str U (class_name_of U key table_def) @ ''(Base):''] @
               spec_docstring U (table_description_of table_def) @
               [''    __tablename__ = '' @ [CHR 0x27] @
                  py_str U (db_table_name_of U key table_def) @ [CHR 0x27],
                [], []])))"
proof -
  let ?block = "[''class '' @ py_str U (class_name_of U key table_def) @ ''(Base):''] @
         spec_docstring U (table_description_of table_def) @
         [''    __tablename__ = '' @ [CHR 0x27] @ py_str U (db_table_name_of U key table_def) @
            [CHR 0x27],
          [], []]"
  have t: "render_table U s (YStr key, YDict table_def) =
       Inr (s\<lparr>model_code_lines := model_code_lines s @ ?block\<rparr>)" for s
    using assms(1) by (simp add: render_table_def docstring_lines_typed [OF assms(2)] table_head_def)
  have "generate_from_schema U set_order
         (YDict [(YStr ''tables'', YDict [(YStr key, YDict table_def)])]) =
       Inr (''from sqlalchemy import Column'' @ [CHR 0x0A] @
            ''from sqlalchemy.ext.declarative import declarative_base'' @ [CHR 0x0A, CHR 0x0A] @
            ''Base = declarative_base()'' @ [CHR 0x0A, CHR 0x0A] @ join [CHR 0x0A] ?block)"
    if i: "iterates set_order"
    by (simp add: generate_from_schema_def dict_get_def t final_imports_sorted [OF i]
        sorted_import_block_def full_code_def initial_state_def)
  with t show ?thesis by blast
qed

theorem empty_columns_table_witness:
  "render_table no_unicode initial_state
     (YStr ''audit_log'', YDict [(YStr ''description'', YStr ''Audit trail.''),
                                (YStr ''columns'', YDict [])]) =
   Inr \<lparr>used_sqlalchemy_types = [], needs_sqlalchemy_func_import = False,
        model_code_lines =
          [''class AuditLog(Base):'',
           ''    '' @ [CHR 0x22, CHR 0x22, CHR 0x22],
           ''    Audit trail.'',
           ''    '' @ [CHR 0x22, CHR 0x22, CHR 0x22],
           ''    __tablename__ = '' @ [CHR 0x27] @ ''audit_log'' @ [CHR 0x27],
           [], []]\<rparr> \<and>
   generate_from_schema no_unicode rev
     (YDict [(YStr ''tables'', YDict [(YStr ''audit_log'',
        YDict [(YStr ''description'', YStr ''Audit trail.''), (YStr ''columns'', YDict [])])])])
   = Inr (join [CHR 0x0A]
       [''from sqlalchemy import Column'',
        ''from sqlalchemy.ext.declarative import declarative_base'',
        [],
        ''Base = declarative_base()'',
        [],
        ''class AuditLog(Base):'',
        ''    '' @ [CHR 0x22, CHR 0x22, CHR 0x22],
        ''    Audit trail.'',
        ''    '' @ [CHR 0x22, CHR 0x22, CHR 0x22],
        ''    __tablename__ = '' @ [CHR 0x27] @ ''audit_log'' @ [CHR 0x27],
        [], []])"
proof -
  let ?td = "[(YStr ''description'', YStr ''Audit trail.''), (YStr ''columns'', YDict [])]"
  have c: "dict_get ?td ''columns'' = Some (YDict [])"
    by (simp add: dict_get_def)
  have t: "typed_description (table_description_of ?td)"
    by (simp add: typed_description_def table_description_of_def dict_get_def)
  have r: "iterates rev" by (simp add: iterates_def)
  from empty_columns_table [OF c t, of no_unicode initial_state "''audit_log''" rev] r
  show ?thesis
    by (simp add: table_defs string_defs spec_docstring_def dict_get_def initial_state_def)
qed

end
